theory Spec2Isabelle
  imports Main "HOL-Library.Sublist"
begin

section \<open>JavaScript strings\<close>

text \<open>
  A JavaScript string is a sequence of UTF-16 code units. The program compares strings
  with literals, tests prefixes and substrings, and matches the whitespace class of
  regular expressions, all of which work on code units; a string is therefore a list of
  code units, each a natural number. A literal of the source is written
  \<open>str ''...''\<close>.
\<close>

type_synonym js_string = "nat list"

definition str :: "string \<Rightarrow> js_string" where
  "str s = map of_char s"

text \<open>\<open>s.startsWith(p)\<close> is \<open>prefix p s\<close>; \<open>s.includes(p)\<close> is \<open>js_includes s p\<close>:\<close>

fun js_includes :: "js_string \<Rightarrow> js_string \<Rightarrow> bool" where
  "js_includes [] p = (p = [])"
| "js_includes (c # cs) p = (prefix p (c # cs) \<or> js_includes cs p)"

text \<open>
  The characters matched by \<open>\s\<close> in a regular expression and removed by
  \<open>trim()\<close>: the WhiteSpace and LineTerminator code points of ECMAScript.
\<close>

definition isWhiteSpace :: "nat \<Rightarrow> bool" where
  "isWhiteSpace c =
     (c = 9 \<or> c = 10 \<or> c = 11 \<or> c = 12 \<or> c = 13 \<or> c = 32 \<or> c = 160 \<or> c = 5760
      \<or> (8192 \<le> c \<and> c \<le> 8202) \<or> c = 8232 \<or> c = 8233 \<or> c = 8239 \<or> c = 8287
      \<or> c = 12288 \<or> c = 65279)"

definition trim :: "js_string \<Rightarrow> js_string" where
  "trim s = rev (dropWhile isWhiteSpace (rev (dropWhile isWhiteSpace s)))"

text \<open>
  An optional string of the source (\<open>string | undefined\<close>) is a \<open>js_string option\<close>.
  In a condition it counts as true when it is defined and not empty.
\<close>

fun truthy :: "js_string option \<Rightarrow> bool" where
  "truthy None = False"
| "truthy (Some s) = (s \<noteq> [])"

section \<open>Errors\<close>

text \<open>
  Every exception the program raises or receives from the runtime is a value of
  \<open>error\<close>. A function without effects that may throw returns \<open>error + 'a\<close>, with
  \<open>Inl\<close> for the exception.
  \<^item> Thrown by \<open>parseArgs\<close>: \<open>UsageError\<close> (no argument), \<open>UnknownArgument arg\<close>
    (\<open>Unknown argument: arg\<close>), \<open>MutuallyExclusive\<close> (\<open>--profile-group\<close> with
    \<open>--start-commit\<close>); \<open>ResolveFailed\<close> is the exception of \<open>resolve\<close>.
  \<^item> Thrown while waiting for the preview: \<open>ReadinessTimeout\<close> (\<open>Timed out waiting for
    Quarto preview server to start\<close>), \<open>StreamEndedPrematurely\<close> (\<open>Quarto stderr stream
    ended before server was ready\<close>); \<open>StreamReadFailed\<close> is the exception of a failed
    read, \<open>SpawnFailed\<close> that of \<open>spawn\<close>.
  \<^item> Thrown by \<open>processItem\<close>: \<open>CaptureFailed\<close> (\<open>Screenshot capture failed -
    terminating process\<close>), \<open>CopyFailed\<close> (\<open>File copy failed - terminating process\<close>).
  \<^item> Inside \<open>captureScreen\<close>: \<open>ScreenCaptureToolFailed\<close> (\<open>Screen capture failed\<close>),
    \<open>ScreenshotEmpty\<close> (\<open>Screenshot file is empty\<close>); \<open>CommandFailed\<close> and
    \<open>StatFailed\<close> are the exceptions of \<open>output()\<close> and of \<open>Deno.stat\<close>.
  \<^item> Inside \<open>stopQuartoPreview\<close>: \<open>ExitWaitTimeout\<close> (\<open>Timeout waiting for process to
    exit\<close>); \<open>KillFailed\<close> is the exception of \<open>process.kill\<close>, \<open>StatusRejected\<close> a
    rejection of \<open>process.status\<close>.
  \<^item> From the collaborators: \<open>SelectionRectFailed\<close>, \<open>ProfilesFailed\<close>,
    \<open>GitHistoryFailed\<close>, \<open>CheckoutFailed\<close>; \<open>AlreadyExists\<close> and \<open>MkdirFailed\<close> are
    exceptions of \<open>Deno.mkdir\<close>.
\<close>

datatype error =
    UsageError
  | UnknownArgument js_string
  | MutuallyExclusive
  | ResolveFailed
  | SelectionRectFailed
  | ProfilesFailed
  | GitHistoryFailed
  | CheckoutFailed
  | AlreadyExists
  | MkdirFailed
  | SpawnFailed
  | ReadinessTimeout
  | StreamEndedPrematurely
  | StreamReadFailed
  | CommandFailed
  | ScreenCaptureToolFailed
  | StatFailed
  | ScreenshotEmpty
  | CaptureFailed
  | CopyFailed
  | KillFailed
  | StatusRejected
  | ExitWaitTimeout

section \<open>The runtime functions the program calls\<close>

text \<open>
  Functions of the JavaScript runtime and of the Deno standard library that the program
  calls on its data are parameters of the model:
  \<^item> \<open>Number\<close>, over a type \<open>'n\<close> of JavaScript numbers that are not \<open>NaN\<close>:
    \<open>Number pf s = None\<close> when \<open>isNaN(Number(s))\<close> holds; \<open>num_zero\<close> is the number 0;
  \<^item> \<open>resolve\<close> of the path module, which reads the working directory for a relative
    path and throws when it cannot (\<open>None\<close>);
  \<^item> \<open>basename\<close> of the path module;
  \<^item> \<open>numToString\<close>, the conversion of a number inside a template literal.
\<close>

record 'n platform =
  Number :: "js_string \<Rightarrow> 'n option"
  num_zero :: 'n
  resolve :: "js_string \<Rightarrow> js_string option"
  basename :: "js_string \<Rightarrow> js_string"
  numToString :: "'n \<Rightarrow> js_string"

section \<open>cli.ts: parseArgs\<close>

record 'n QuartoRecordOptions =
  opt_outputDir :: js_string
  opt_inputDir :: js_string
  opt_file :: "js_string option"
  opt_startCommit :: "js_string option"
  opt_copyFile :: "js_string option"
  opt_profileGroupIndex :: "'n option"

text \<open>The variables the parsing loop assigns.\<close>

record 'n parse_state =
  ps_inputDir :: js_string
  ps_file :: "js_string option"
  ps_startCommit :: "js_string option"
  ps_copyFile :: "js_string option"
  ps_profileGroupIndex :: "'n option"

abbreviation initial_parse_state :: "'n parse_state" where
  "initial_parse_state \<equiv>
     \<lparr>ps_inputDir = str ''.'', ps_file = None, ps_startCommit = None, ps_copyFile = None,
      ps_profileGroupIndex = None\<rparr>"

text \<open>
  The loop \<open>for (let i = 1; i < args.length; i++)\<close>, on the arguments from index
  \<open>i\<close> on: \<open>arg\<close> is \<open>args[i]\<close>, \<open>rest\<close> are the arguments after it, so that
  \<open>i + 1 < args.length\<close> is \<open>rest \<noteq> []\<close> and \<open>args[++i]\<close> is \<open>hd rest\<close>, after
  which the loop goes on with \<open>tl rest\<close>.
\<close>

fun parseNamed ::
  "'n platform \<Rightarrow> 'n parse_state \<Rightarrow> js_string list \<Rightarrow> error + 'n parse_state"
where
  "parseNamed pf st [] = Inr st"
| "parseNamed pf st (arg # rest) =
     (if arg = str ''--input'' \<and> rest \<noteq> [] then
        parseNamed pf (st\<lparr>ps_inputDir := hd rest\<rparr>) (tl rest)
      else if arg = str ''--file'' \<and> rest \<noteq> [] then
        parseNamed pf (st\<lparr>ps_file := Some (hd rest)\<rparr>) (tl rest)
      else if arg = str ''--start-commit'' \<and> rest \<noteq> [] then
        parseNamed pf (st\<lparr>ps_startCommit := Some (hd rest)\<rparr>) (tl rest)
      else if arg = str ''--copy-file'' \<and> rest \<noteq> [] then
        parseNamed pf (st\<lparr>ps_copyFile := Some (hd rest)\<rparr>) (tl rest)
      else if arg = str ''--profile-group'' then
        (if rest \<noteq> [] \<and> Number pf (hd rest) \<noteq> None \<and> \<not> prefix (str ''--'') (hd rest) then
           parseNamed pf (st\<lparr>ps_profileGroupIndex := Number pf (hd rest)\<rparr>) (tl rest)
         else
           parseNamed pf (st\<lparr>ps_profileGroupIndex := Some (num_zero pf)\<rparr>) rest)
      else Inl (UnknownArgument arg))"

text \<open>
  \<open>parseArgs\<close> on the argument list \<open>Deno.args\<close>. The paths are resolved before the
  check for mutually exclusive options, as in the source.
\<close>

definition parseArgs :: "'n platform \<Rightarrow> js_string list \<Rightarrow> error + 'n QuartoRecordOptions" where
  "parseArgs pf args =
     (if length args < 1 then Inl UsageError
      else
        case parseNamed pf initial_parse_state (tl args) of
          Inl e \<Rightarrow> Inl e
        | Inr st \<Rightarrow>
            (case resolve pf (hd args) of
               None \<Rightarrow> Inl ResolveFailed
             | Some absOutputDir \<Rightarrow>
                 (case resolve pf (ps_inputDir st) of
                    None \<Rightarrow> Inl ResolveFailed
                  | Some absInputDir \<Rightarrow>
                      (case (if truthy (ps_copyFile st)
                             then map_option Some (resolve pf (the (ps_copyFile st)))
                             else Some None) of
                         None \<Rightarrow> Inl ResolveFailed
                       | Some absCopyFile \<Rightarrow>
                           if ps_profileGroupIndex st \<noteq> None \<and> truthy (ps_startCommit st)
                           then Inl MutuallyExclusive
                           else Inr \<lparr>opt_outputDir = absOutputDir, opt_inputDir = absInputDir,
                                     opt_file = ps_file st, opt_startCommit = ps_startCommit st,
                                     opt_copyFile = absCopyFile,
                                     opt_profileGroupIndex = ps_profileGroupIndex st\<rparr>))))"

section \<open>Promises and timers\<close>

text \<open>
  Time is counted in milliseconds from the moment the function that creates the promises
  is called. A promise either never settles, or resolves with a value at some time, or
  rejects with an error at some time.
\<close>

datatype 'a promise = Never | Resolves nat 'a | Rejects nat error

fun settle_time :: "'a promise \<Rightarrow> nat option" where
  "settle_time Never = None"
| "settle_time (Resolves t v) = Some t"
| "settle_time (Rejects t e) = Some t"

text \<open>
  \<open>Promise.race([p, q])\<close> settles as the promise that settles first. When both settle
  in the same millisecond the model takes the first of the array; no statement of a
  claim below depends on that choice.
\<close>

definition race :: "'a promise \<Rightarrow> 'a promise \<Rightarrow> 'a promise" where
  "race p q =
     (case settle_time p of
        None \<Rightarrow> q
      | Some a \<Rightarrow> (case settle_time q of None \<Rightarrow> p | Some b \<Rightarrow> if a \<le> b then p else q))"

section \<open>quarto.ts: waiting for the preview server\<close>

text \<open>
  The standard error stream of the preview process, as \<open>reader.read()\<close> delivers it:
  the chunks in order, each with its arrival time and its decoded text, and the way the
  stream ends: it reports \<open>done\<close> at some time, or a read fails at some time, or the
  stream stays open and silent for ever.
\<close>

datatype stream_end = Done nat | ReadFails nat | StaysOpen

record stderr_stream =
  chunks :: "(nat \<times> js_string) list"
  ending :: stream_end

text \<open>
  \<open>text.match(/Listening on (http:\/\/[^\/\s]+)/)\<close>: the leftmost position where the
  literal text is followed by at least one character that is neither a slash (code unit
  47) nor whitespace; the group is \<open>http://\<close> with the longest run of such characters.
  The result is the group (\<open>listeningMatch[1]\<close>), or \<open>None\<close> when the match is null.
\<close>

fun listeningMatch :: "js_string \<Rightarrow> js_string option" where
  "listeningMatch [] = None"
| "listeningMatch (c # cs) =
     (let host = takeWhile (\<lambda>x. x \<noteq> 47 \<and> \<not> isWhiteSpace x)
                   (drop (length (str ''Listening on http://'')) (c # cs))
      in if prefix (str ''Listening on http://'') (c # cs) \<and> host \<noteq> []
         then Some (str ''http://'' @ host)
         else listeningMatch cs)"

text \<open>
  The loop of \<open>processStderr\<close>, with the variable \<open>url\<close> (initially the empty string)
  as its state. Reading takes no time of its own: a chunk is processed when it arrives,
  and the only delay is the 500 ms the function waits before it returns the URL.
\<close>

fun processStderr_loop :: "js_string \<Rightarrow> (nat \<times> js_string) list \<Rightarrow> stream_end \<Rightarrow> js_string promise" where
  "processStderr_loop url [] (Done t) = Rejects t StreamEndedPrematurely"
| "processStderr_loop url [] (ReadFails t) = Rejects t StreamReadFailed"
| "processStderr_loop url [] StaysOpen = Never"
| "processStderr_loop url ((t, text) # rest) e =
     (let url' = (case listeningMatch text of
                    Some u \<Rightarrow> if url = [] then u else url
                  | None \<Rightarrow> url)
      in if js_includes text (str ''GET:'') \<and> url' \<noteq> []
         then Resolves (t + 500) url'
         else processStderr_loop url' rest e)"

definition processStderr :: "stderr_stream \<Rightarrow> js_string promise" where
  "processStderr s = processStderr_loop [] (chunks s) (ending s)"

definition timeoutPromise :: "js_string promise" where
  "timeoutPromise = Rejects 60000 ReadinessTimeout"

text \<open>
  \<open>waitForQuartoServer\<close>. The standard output is only logged, by a task that is
  started and not awaited and that catches its own errors; it has no part in the result.
\<close>

definition waitForQuartoServer :: "stderr_stream \<Rightarrow> js_string promise" where
  "waitForQuartoServer s = race (processStderr s) timeoutPromise"

section \<open>Effects: traces of actions on the outside world\<close>

text \<open>
  What the program does to the outside world is recorded as a trace of events, in the
  order of execution. Console output is not recorded. The events of the collaborators
  that are not studied further stand for the whole call: \<open>ReadSelectionRect\<close> for
  \<open>getLastSelectionRect\<close> (which runs the \<open>defaults\<close> command), \<open>ReadProfiles\<close> for
  \<open>getProfilesFromGroup\<close> (which reads \<open>_quarto.yml\<close>), \<open>GitHistory\<close> for
  \<open>getGitHistory\<close> and \<open>GitCheckout\<close> for \<open>checkoutCommit\<close> (which change the working
  directory and run \<open>git\<close>). \<open>Enter\<close> and \<open>Leave\<close> mark the call of one of the
  program's own functions and the moment that call settles.
\<close>

datatype signal = SIGTERM | SIGKILL

datatype callee = StartQuartoPreview | CaptureScreen | StopQuartoPreview

datatype event =
    QueryPermissions
  | ReadSelectionRect
  | ReadProfiles js_string
  | GitHistory js_string "js_string option"
  | GitCheckout js_string js_string
  | Mkdir js_string
  | Spawn js_string "js_string list"
  | Stat js_string
  | Kill nat signal
  | Sleep nat
  | CopyFile js_string js_string
  | Enter callee
  | Leave callee
  | Exit nat

text \<open>The events that start a subprocess.\<close>

fun spawns_subprocess :: "event \<Rightarrow> bool" where
  "spawns_subprocess ReadSelectionRect = True"
| "spawns_subprocess (GitHistory d c) = True"
| "spawns_subprocess (GitCheckout d h) = True"
| "spawns_subprocess (Spawn c as) = True"
| "spawns_subprocess ev = False"

text \<open>
  An asynchronous function returns a value, throws, or never settles. A computation is
  the trace it leaves and its outcome.
\<close>

datatype 'a outcome = Returns 'a | Throws error | Hangs

type_synonym 'a io = "event list \<times> 'a outcome"

definition ret :: "'a \<Rightarrow> 'a io" where
  "ret v = ([], Returns v)"

definition throw :: "error \<Rightarrow> 'a io" where
  "throw e = ([], Throws e)"

text \<open>\<open>bind m f\<close>: run \<open>m\<close>, then \<open>f\<close> on its value; a throw or a hang of \<open>m\<close> ends it.\<close>

definition bind :: "'a io \<Rightarrow> ('a \<Rightarrow> 'b io) \<Rightarrow> 'b io" where
  "bind m f =
     (case snd m of
        Returns v \<Rightarrow> (fst m @ fst (f v), snd (f v))
      | Throws e \<Rightarrow> (fst m, Throws e)
      | Hangs \<Rightarrow> (fst m, Hangs))"

text \<open>\<open>try { m } catch (e) { h e }\<close>.\<close>

definition try_catch :: "'a io \<Rightarrow> (error \<Rightarrow> 'a io) \<Rightarrow> 'a io" where
  "try_catch m h =
     (case snd m of
        Throws e \<Rightarrow> (fst m @ fst (h e), snd (h e))
      | Returns v \<Rightarrow> m
      | Hangs \<Rightarrow> m)"

text \<open>\<open>await p\<close> on a promise.\<close>

fun await :: "'a promise \<Rightarrow> 'a io" where
  "await Never = ([], Hangs)"
| "await (Resolves t v) = ([], Returns v)"
| "await (Rejects t e) = ([], Throws e)"

text \<open>A call of one of the program's functions, marked in the trace.\<close>

definition call :: "callee \<Rightarrow> 'a io \<Rightarrow> 'a io" where
  "call f m = (Enter f # fst m @ (if snd m = Hangs then [] else [Leave f]), snd m)"

text \<open>
  \<open>await new Deno.Command(cmd, {args}).output()\<close>: the command is run to its end; the
  call throws (the command cannot be started), or returns whether the command succeeded
  and what it wrote to its standard output. The result comes from the outside world.
\<close>

datatype command_result = OutputThrows | Output bool js_string

definition command_output :: "command_result \<Rightarrow> js_string \<Rightarrow> js_string list \<Rightarrow> (bool \<times> js_string) io" where
  "command_output r cmd as =
     ([Spawn cmd as],
      case r of OutputThrows \<Rightarrow> Throws CommandFailed | Output ok out \<Rightarrow> Returns (ok, out))"

section \<open>capture.ts: captureScreen and copyFile\<close>

record 'n ScreenRect =
  rect_x :: 'n
  rect_y :: 'n
  rect_width :: 'n
  rect_height :: 'n

text \<open>
  The outside world of one call of \<open>captureScreen\<close>: the result of the
  \<open>screencapture\<close> command and of \<open>Deno.stat\<close> on the output path afterwards
  (\<open>None\<close>: it throws, as it does when there is no file; otherwise the size).
\<close>

record capture_world =
  screencapture_result :: command_result
  stat_result :: "nat option"

definition stat :: "nat option \<Rightarrow> js_string \<Rightarrow> nat io" where
  "stat r path = ([Stat path], case r of None \<Rightarrow> Throws StatFailed | Some fileSize \<Rightarrow> Returns fileSize)"

definition captureScreen :: "'n platform \<Rightarrow> capture_world \<Rightarrow> js_string \<Rightarrow> 'n ScreenRect \<Rightarrow> bool io" where
  "captureScreen pf w outputPath rect =
     try_catch
       (let rectStr = numToString pf (rect_x rect) @ str '','' @ numToString pf (rect_y rect)
                      @ str '','' @ numToString pf (rect_width rect) @ str '',''
                      @ numToString pf (rect_height rect)
        in bind (command_output (screencapture_result w) (str ''screencapture'')
                   [str ''-x'', str ''-R'', rectStr, outputPath])
             (\<lambda>output.
                if \<not> fst output then throw ScreenCaptureToolFailed
                else try_catch
                       (bind (stat (stat_result w) outputPath)
                          (\<lambda>fileSize. if fileSize = 0 then throw ScreenshotEmpty else ret True))
                       (\<lambda>err. ret False)))
       (\<lambda>error. ret False)"

definition copyFile :: "bool \<Rightarrow> js_string \<Rightarrow> js_string \<Rightarrow> bool io" where
  "copyFile ok sourcePath destPath =
     try_catch
       (bind ([CopyFile sourcePath destPath], if ok then Returns () else Throws CopyFailed)
          (\<lambda>u. ret True))
       (\<lambda>error. ret False)"

section \<open>quarto.ts: starting and stopping the preview\<close>

text \<open>
  A spawned preview process (\<open>Deno.ChildProcess\<close>): its process id and its standard
  error stream.
\<close>

record ChildProcess =
  pid :: nat
  stderr :: stderr_stream

record QuartoPreviewResult =
  result_process :: ChildProcess
  result_url :: js_string

text \<open>
  \<open>startQuartoPreview(file, profile)\<close>. \<open>spawned\<close> is what \<open>spawn()\<close> does in the
  outside world: it throws (\<open>None\<close>) or gives the child process.
\<close>

definition startQuartoPreview ::
  "ChildProcess option \<Rightarrow> js_string option \<Rightarrow> js_string option \<Rightarrow> QuartoPreviewResult io" where
  "startQuartoPreview spawned qmdFile profile =
     (let args = [str ''preview'']
                 @ (if truthy qmdFile then [the qmdFile] else [])
                 @ (if truthy profile then [str ''--profile'', the profile] else [])
      in bind ([Spawn (str ''quarto'') args],
               case spawned of None \<Rightarrow> Throws SpawnFailed | Some p \<Rightarrow> Returns p)
           (\<lambda>process.
              bind (await (waitForQuartoServer (stderr process)))
                (\<lambda>url. ret \<lparr>result_process = process, result_url = url\<rparr>)))"

text \<open>
  The outside world of one call of \<open>stopQuartoPreview\<close>: whether each
  \<open>process.kill\<close> succeeds or throws, when \<open>process.status\<close> settles (counted from the
  call), and the results of the \<open>pkill\<close>, \<open>pgrep\<close> and \<open>pkill -9\<close> commands.
\<close>

record stop_world =
  sigterm_ok :: bool
  status :: "unit promise"
  sigkill_ok :: bool
  pkill_result :: command_result
  pgrep_result :: command_result
  force_pkill_result :: command_result

definition kill :: "bool \<Rightarrow> nat \<Rightarrow> signal \<Rightarrow> unit io" where
  "kill ok p sig = ([Kill p sig], if ok then Returns () else Throws KillFailed)"

definition sleep :: "nat \<Rightarrow> unit io" where
  "sleep ms = ([Sleep ms], Returns ())"

text \<open>The pattern \<open>deno.*quarto\.ts preview\<close> (code unit 92 is the backslash).\<close>

definition preview_pattern :: js_string where
  "preview_pattern = str ''deno.*quarto'' @ [92] @ str ''.ts preview''"

text \<open>The argument of \<open>stopQuartoPreview\<close> is a preview result or a bare process.\<close>

datatype preview_ref = Result QuartoPreviewResult | Process ChildProcess

text \<open>The three steps of \<open>stopQuartoPreview\<close>, each with its own \<open>try\<close>/\<open>catch\<close>.\<close>

definition stop_step1 :: "stop_world \<Rightarrow> ChildProcess \<Rightarrow> unit io" where
  "stop_step1 w process =
     try_catch
       (bind (kill (sigterm_ok w) (pid process) SIGTERM)
          (\<lambda>u. bind (await (race (status w) (Rejects 2000 ExitWaitTimeout)))
                  (\<lambda>u. ret ())))
       (\<lambda>e. try_catch (kill (sigkill_ok w) (pid process) SIGKILL) (\<lambda>innerE. ret ()))"

definition stop_step2 :: "stop_world \<Rightarrow> unit io" where
  "stop_step2 w =
     try_catch
       (bind (command_output (pkill_result w) (str ''pkill'') [str ''-f'', preview_pattern])
          (\<lambda>output. sleep 500))
       (\<lambda>e. ret ())"

definition stop_step3 :: "stop_world \<Rightarrow> unit io" where
  "stop_step3 w =
     try_catch
       (bind (command_output (pgrep_result w) (str ''pgrep'') [str ''-f'', preview_pattern])
          (\<lambda>checkOutput.
             if fst checkOutput then
               (let remainingPids = trim (snd checkOutput)
                in if remainingPids \<noteq> [] then
                     bind (command_output (force_pkill_result w) (str ''pkill'')
                             [str ''-9'', str ''-f'', preview_pattern])
                       (\<lambda>output. ret ())
                   else ret ())
             else ret ()))
       (\<lambda>e. ret ())"

text \<open>\<open>'process' in result ? result.process : result\<close>\<close>

fun process_of :: "preview_ref \<Rightarrow> ChildProcess" where
  "process_of (Result r) = result_process r"
| "process_of (Process p) = p"

definition stopQuartoPreview :: "stop_world \<Rightarrow> preview_ref \<Rightarrow> unit io" where
  "stopQuartoPreview w result =
     try_catch
       (let process = process_of result
        in bind (stop_step1 w process) (\<lambda>u. bind (stop_step2 w) (\<lambda>u. stop_step3 w)))
       (\<lambda>error. ret ())"

section \<open>utils.ts, git.ts, yaml.ts: the collaborators of main\<close>

text \<open>
  \<open>ensureDir\<close>: \<open>Deno.mkdir\<close> succeeds (\<open>None\<close>) or throws an error; the error
  \<open>AlreadyExists\<close> is swallowed, any other is thrown again.
\<close>

definition ensureDir :: "error option \<Rightarrow> js_string \<Rightarrow> unit io" where
  "ensureDir mkdir_error dir =
     try_catch
       ([Mkdir dir], case mkdir_error of None \<Rightarrow> Returns () | Some e \<Rightarrow> Throws e)
       (\<lambda>error. if error \<noteq> AlreadyExists then throw error else ret ())"

text \<open>
  The other collaborators are taken by their interface: each is one event, and returns
  the value the outside world gives or throws when it gives none.
\<close>

record GitCommit =
  hash :: js_string
  message :: js_string
  author :: js_string
  date :: js_string

definition getLastSelectionRect :: "'n ScreenRect option \<Rightarrow> 'n ScreenRect io" where
  "getLastSelectionRect r =
     ([ReadSelectionRect], case r of None \<Rightarrow> Throws SelectionRectFailed | Some rect \<Rightarrow> Returns rect)"

definition getProfilesFromGroup :: "js_string list option \<Rightarrow> js_string \<Rightarrow> js_string list io" where
  "getProfilesFromGroup r dir =
     ([ReadProfiles dir], case r of None \<Rightarrow> Throws ProfilesFailed | Some ps \<Rightarrow> Returns ps)"

definition getGitHistory :: "GitCommit list option \<Rightarrow> js_string \<Rightarrow> js_string option \<Rightarrow> GitCommit list io" where
  "getGitHistory r repoDir start =
     ([GitHistory repoDir start], case r of None \<Rightarrow> Throws GitHistoryFailed | Some cs \<Rightarrow> Returns cs)"

text \<open>
  \<open>checkoutCommit\<close> never returns normally. It takes the field \<open>status\<close> of the result
  of \<open>command.output()\<close>; the result of a \<open>Deno.Command\<close> has the fields \<open>success\<close>,
  \<open>code\<close>, \<open>signal\<close>, \<open>stdout\<close> and \<open>stderr\<close> and no field \<open>status\<close>, so that
  \<open>status.success\<close> raises a type error once \<open>git\<close> has run. That error, like any raised
  before it by the change of directory or by the command, is caught by the function and
  thrown again as its own error \<open>Failed to checkout commit\<close>.
\<close>

definition checkoutCommit :: "js_string \<Rightarrow> js_string \<Rightarrow> unit io" where
  "checkoutCommit repoDir commitHash =
     ([GitCheckout repoDir commitHash], Throws CheckoutFailed)"

section \<open>main.ts: processItem and main\<close>

record 'n ProcessItemOptions =
  itemId :: js_string
  itemDescription :: js_string
  item_outputDir :: js_string
  item_inputDir :: js_string
  item_file :: "js_string option"
  item_profile :: "js_string option"
  item_copyFile :: "js_string option"
  screenRect :: "'n ScreenRect"

text \<open>The outside world while one item is processed.\<close>

record item_world =
  mkdir_error :: "error option"
  spawned :: "ChildProcess option"
  capture_w :: capture_world
  stop_w :: stop_world
  copy_ok :: bool

definition processItem :: "'n platform \<Rightarrow> item_world \<Rightarrow> 'n ProcessItemOptions \<Rightarrow> unit io" where
  "processItem pf iw options =
     (let itemOutputDir = item_outputDir options @ str ''/'' @ itemId options
      in bind (ensureDir (mkdir_error iw) itemOutputDir)
       (\<lambda>u. bind (call StartQuartoPreview
                    (startQuartoPreview (spawned iw) (item_file options) (item_profile options)))
       (\<lambda>quartoResult.
          let screenshotPath = itemOutputDir @ str ''/screenshot.png''
          in bind (call CaptureScreen
                     (captureScreen pf (capture_w iw) screenshotPath (screenRect options)))
       (\<lambda>captureSuccess. bind (if captureSuccess then ret () else throw CaptureFailed)
       (\<lambda>u. bind (call StopQuartoPreview (stopQuartoPreview (stop_w iw) (Result quartoResult)))
       (\<lambda>u. if truthy (item_copyFile options) then
               (let destPath = itemOutputDir @ str ''/''
                               @ basename pf (the (item_copyFile options))
                in bind (copyFile (copy_ok iw) (the (item_copyFile options)) destPath)
                     (\<lambda>copySuccess. if copySuccess then ret () else throw CopyFailed))
             else ret ()))))))"

text \<open>
  The outside world of a run: the answer of the permission check, the command line, the
  results of the collaborators, and the world of each item by its index in the loop.
\<close>

record 'n world =
  permissions_ok :: bool
  args :: "js_string list"
  selectionRect :: "'n ScreenRect option"
  profiles :: "js_string list option"
  commits :: "GitCommit list option"
  item_w :: "nat \<Rightarrow> item_world"

text \<open>The loop over the profiles, from index \<open>i\<close> on.\<close>

fun processProfiles ::
  "'n platform \<Rightarrow> (nat \<Rightarrow> item_world) \<Rightarrow> 'n QuartoRecordOptions \<Rightarrow> 'n ScreenRect \<Rightarrow> nat
   \<Rightarrow> js_string list \<Rightarrow> unit io" where
  "processProfiles pf iw options rect i [] = ret ()"
| "processProfiles pf iw options rect i (profile # rest) =
     bind (processItem pf (iw i)
             \<lparr>itemId = profile, itemDescription = str ''profile '' @ profile,
              item_outputDir = opt_outputDir options, item_inputDir = opt_inputDir options,
              item_file = opt_file options, item_profile = Some profile,
              item_copyFile = opt_copyFile options, screenRect = rect\<rparr>)
       (\<lambda>u. processProfiles pf iw options rect (Suc i) rest)"

text \<open>The loop over the commits, from index \<open>i\<close> on.\<close>

fun processCommits ::
  "'n platform \<Rightarrow> (nat \<Rightarrow> item_world) \<Rightarrow> 'n QuartoRecordOptions \<Rightarrow> 'n ScreenRect \<Rightarrow> nat
   \<Rightarrow> GitCommit list \<Rightarrow> unit io" where
  "processCommits pf iw options rect i [] = ret ()"
| "processCommits pf iw options rect i (commit # rest) =
     bind (checkoutCommit (opt_inputDir options) (hash commit))
       (\<lambda>u. bind (processItem pf (iw i)
                    \<lparr>itemId = hash commit, itemDescription = str ''commit '' @ hash commit,
                     item_outputDir = opt_outputDir options, item_inputDir = opt_inputDir options,
                     item_file = opt_file options, item_profile = None,
                     item_copyFile = opt_copyFile options, screenRect = rect\<rparr>)
       (\<lambda>u. processCommits pf iw options rect (Suc i) rest))"

text \<open>The body of the \<open>try\<close> block of \<open>main\<close>, after the permission check.\<close>

definition main_body :: "'n platform \<Rightarrow> 'n world \<Rightarrow> unit io" where
  "main_body pf w =
     bind (case parseArgs pf (args w) of Inl e \<Rightarrow> throw e | Inr options \<Rightarrow> ret options)
       (\<lambda>options. bind (getLastSelectionRect (selectionRect w))
       (\<lambda>rect.
          if opt_profileGroupIndex options \<noteq> None then
            bind (getProfilesFromGroup (profiles w) (opt_inputDir options))
              (\<lambda>ps. processProfiles pf (item_w w) options rect 0 ps)
          else
            bind (getGitHistory (commits w) (opt_inputDir options) (opt_startCommit options))
              (\<lambda>cs. processCommits pf (item_w w) options rect 0 cs)))"

text \<open>
  \<open>main\<close>: the trace of the whole run. \<open>Deno.exit\<close> ends the run, so the trace ends
  with the \<open>Exit\<close> event, unless the run hangs.
\<close>

definition main :: "'n platform \<Rightarrow> 'n world \<Rightarrow> event list" where
  "main pf w =
     (if \<not> permissions_ok w then [QueryPermissions, Exit 1]
      else case snd (main_body pf w) of
             Returns u \<Rightarrow> QueryPermissions # fst (main_body pf w) @ [Exit 0]
           | Throws e \<Rightarrow> QueryPermissions # fst (main_body pf w) @ [Exit 1]
           | Hangs \<Rightarrow> QueryPermissions # fst (main_body pf w))"

section \<open>A sample platform\<close>

text \<open>
  A concrete platform, used only to evaluate the functions on concrete inputs; no
  general statement depends on it. Numbers are natural numbers.
  \<^item> \<open>Number\<close> reads a string of decimal digits (the empty string as 0), as JavaScript
    does; it is \<open>NaN\<close> on every other string, also on the signed, fractional,
    exponential, hexadecimal and space-padded forms that JavaScript reads as numbers.
  \<^item> \<open>resolve\<close> is that of the path module on a POSIX system with the working
    directory \<open>/work\<close>: a relative path is put after \<open>/work/\<close>, empty and \<open>.\<close> segments
    are dropped, a \<open>..\<close> segment removes the segment before it, and the result has no
    slash at its end.
  \<^item> \<open>basename\<close> is the last segment of a path, slashes at the end of the path left
    aside.
  \<^item> \<open>numToString\<close> writes a natural number in decimal digits, as JavaScript does for
    the integers below \<open>10\<^sup>2\<^sup>1\<close>.
\<close>

fun decimal :: "nat \<Rightarrow> js_string \<Rightarrow> nat option" where
  "decimal acc [] = Some acc"
| "decimal acc (c # cs) =
     (if 48 \<le> c \<and> c \<le> 57 then decimal (10 * acc + (c - 48)) cs else None)"

function digits :: "nat \<Rightarrow> js_string" where
  "digits n = (if n < 10 then [48 + n] else digits (n div 10) @ [48 + n mod 10])"
  by pat_completeness auto
termination
  by (relation "measure id") auto

declare digits.simps [simp del]

text \<open>The segments of a path between its slashes; \<open>cur\<close> is the segment being read.\<close>

fun split_path :: "js_string \<Rightarrow> js_string \<Rightarrow> js_string list" where
  "split_path cur [] = [rev cur]"
| "split_path cur (c # cs) =
     (if c = 47 then rev cur # split_path [] cs else split_path (c # cur) cs)"

text \<open>The segments that remain; \<open>kept\<close> are those kept so far, the last one first.\<close>

fun normalize_segments :: "js_string list \<Rightarrow> js_string list \<Rightarrow> js_string list" where
  "normalize_segments kept [] = rev kept"
| "normalize_segments kept (seg # segs) =
     (if seg = [] \<or> seg = str ''.'' then normalize_segments kept segs
      else if seg = str ''..'' then normalize_segments (tl kept) segs
      else normalize_segments (seg # kept) segs)"

fun join_path :: "js_string list \<Rightarrow> js_string" where
  "join_path [] = []"
| "join_path (seg # segs) = 47 # seg @ join_path segs"

definition posix_resolve :: "js_string \<Rightarrow> js_string" where
  "posix_resolve p =
     (let segs = normalize_segments []
                   (split_path [] (if prefix (str ''/'') p then p else str ''/work/'' @ p))
      in if segs = [] then str ''/'' else join_path segs)"

definition sample_platform :: "nat platform" where
  "sample_platform =
     \<lparr>Number = decimal 0,
      num_zero = 0,
      resolve = (\<lambda>p. Some (posix_resolve p)),
      basename = (\<lambda>p. rev (takeWhile (\<lambda>c. c \<noteq> 47) (dropWhile (\<lambda>c. c = 47) (rev p)))),
      numToString = digits\<rparr>"

section \<open>Notions used in the statements\<close>

text \<open>The flags of the command line that take a value.\<close>

definition value_flags :: "js_string list" where
  "value_flags = [str ''--input'', str ''--file'', str ''--start-commit'', str ''--copy-file'']"

text \<open>
  The command line after the output directory, as the usage message describes it: a
  sequence of options, each a flag that takes a value followed by that value, or
  \<open>--profile-group\<close> alone or followed by its index. \<open>tokens\<close> are the arguments that
  make up an option and \<open>command_line\<close> those of a sequence of options. The index of
  \<open>--profile-group\<close> is well formed when \<open>Number\<close> reads it as a number and it does not
  start with \<open>--\<close>; any string is a value of the other flags.
\<close>

datatype cli_option =
    OptInput js_string
  | OptFile js_string
  | OptStartCommit js_string
  | OptCopyFile js_string
  | OptProfileGroup "js_string option"

fun tokens :: "cli_option \<Rightarrow> js_string list" where
  "tokens (OptInput v) = [str ''--input'', v]"
| "tokens (OptFile v) = [str ''--file'', v]"
| "tokens (OptStartCommit v) = [str ''--start-commit'', v]"
| "tokens (OptCopyFile v) = [str ''--copy-file'', v]"
| "tokens (OptProfileGroup None) = [str ''--profile-group'']"
| "tokens (OptProfileGroup (Some i)) = [str ''--profile-group'', i]"

definition command_line :: "cli_option list \<Rightarrow> js_string list" where
  "command_line opts = concat (map tokens opts)"

fun well_formed :: "'n platform \<Rightarrow> cli_option \<Rightarrow> bool" where
  "well_formed pf (OptProfileGroup (Some i)) =
     (Number pf i \<noteq> None \<and> \<not> prefix (str ''--'') i)"
| "well_formed pf opt = True"

text \<open>
  The start commit that a sequence of options supplies: the value of its last
  \<open>--start-commit\<close>. The sequence selects the profile group mode when
  \<open>--profile-group\<close> is among its options.
\<close>

fun start_commit_of :: "cli_option list \<Rightarrow> js_string option" where
  "start_commit_of [] = None"
| "start_commit_of (OptStartCommit v # opts) =
     (case start_commit_of opts of None \<Rightarrow> Some v | Some v' \<Rightarrow> Some v')"
| "start_commit_of (opt # opts) = start_commit_of opts"

fun selects_profile_group :: "cli_option list \<Rightarrow> bool" where
  "selects_profile_group [] = False"
| "selects_profile_group (OptProfileGroup i # opts) = True"
| "selects_profile_group (opt # opts) = selects_profile_group opts"

text \<open>
  The preview process has exited in time when its status resolves before the 2000 ms
  timer of the bounded wait fires.
\<close>

definition exited_in_time :: "stop_world \<Rightarrow> bool" where
  "exited_in_time w = (\<exists>t. race (status w) (Rejects 2000 ExitWaitTimeout) = Resolves t ())"

text \<open>A world in which the preview process ignores SIGTERM and no orphan is left.\<close>

definition stubborn_process :: stop_world where
  "stubborn_process =
     \<lparr>sigterm_ok = True, status = Never, sigkill_ok = True,
      pkill_result = Output False [], pgrep_result = Output False [],
      force_pkill_result = Output False []\<rparr>"

text \<open>
  A world in which an item is processed without any failure: the preview announces its
  URL after 1200 ms and logs a request after 2500 ms, the capture writes a file of 1024
  bytes, and the preview process exits 50 ms after SIGTERM.
\<close>

definition graceful_process :: stop_world where
  "graceful_process =
     \<lparr>sigterm_ok = True, status = Resolves 50 (), sigkill_ok = True,
      pkill_result = Output False [], pgrep_result = Output False [],
      force_pkill_result = Output False []\<rparr>"

definition ready_stream :: stderr_stream where
  "ready_stream =
     \<lparr>chunks = [(1200, str ''Listening on http://localhost:4321/''), (2500, str ''GET: /'')],
      ending = StaysOpen\<rparr>"

definition good_item :: item_world where
  "good_item =
     \<lparr>mkdir_error = None,
      spawned = Some \<lparr>pid = 4242, stderr = ready_stream\<rparr>,
      capture_w = \<lparr>screencapture_result = Output True [], stat_result = Some 1024\<rparr>,
      stop_w = graceful_process, copy_ok = True\<rparr>"

text \<open>
  A world of a whole run with a given command line and given item worlds: the
  permissions are there, the selection rectangle can be read, the first profile group
  has the profiles \<open>light\<close> and \<open>dark\<close>, and the history has one commit.
\<close>

definition sample_world :: "js_string list \<Rightarrow> (nat \<Rightarrow> item_world) \<Rightarrow> nat world" where
  "sample_world as iw =
     \<lparr>permissions_ok = True, args = as,
      selectionRect = Some \<lparr>rect_x = 0, rect_y = 0, rect_width = 800, rect_height = 600\<rparr>,
      profiles = Some [str ''light'', str ''dark''],
      commits = Some [\<lparr>hash = str ''abc1234'', message = str ''first'', author = str ''a'',
                       date = str ''d''\<rparr>],
      item_w = iw\<rparr>"

text \<open>
  A chunk without a listening announcement, and a chunk with the marker of an incoming
  request.
\<close>

definition no_listening :: "nat \<times> js_string \<Rightarrow> bool" where
  "no_listening c = (listeningMatch (snd c) = None)"

definition has_marker :: "nat \<times> js_string \<Rightarrow> bool" where
  "has_marker c = js_includes (snd c) (str ''GET:'')"

text \<open>
  Sample streams: one that logs a request before it announces its URL and another one
  afterwards; one that announces its URL and is closed after 5000 ms without a request
  after the announcement; one that logs its first request 59800 ms after the start; one
  that is closed after 61000 ms without a request; one that stays open and silent.
\<close>

definition early_marker_stream :: stderr_stream where
  "early_marker_stream =
     \<lparr>chunks = [(300, str ''GET: /early''),
                (1200, str ''Listening on http://localhost:4321/''),
                (1800, str ''Watching files for changes''),
                (2500, str ''GET: /'')],
      ending = StaysOpen\<rparr>"

definition closing_stream :: stderr_stream where
  "closing_stream =
     \<lparr>chunks = [(300, str ''GET: /early''),
                (1200, str ''Listening on http://localhost:4321/'')],
      ending = Done 5000\<rparr>"

definition late_marker_stream :: stderr_stream where
  "late_marker_stream =
     \<lparr>chunks = [(1000, str ''Listening on http://localhost:4321/''), (59800, str ''GET: /'')],
      ending = StaysOpen\<rparr>"

definition late_closing_stream :: stderr_stream where
  "late_closing_stream =
     \<lparr>chunks = [(1200, str ''Listening on http://localhost:4321/'')], ending = Done 61000\<rparr>"

definition silent_stream :: stderr_stream where
  "silent_stream = \<lparr>chunks = [], ending = StaysOpen\<rparr>"

text \<open>
  The events of the preview lifecycles: the calls of \<open>startQuartoPreview\<close> and
  \<open>stopQuartoPreview\<close> and the moments they settle. \<open>lifecycle\<close> keeps these events of
  a trace, in their order. One lifecycle that is carried through is \<open>one_cycle\<close>.
\<close>

fun is_lifecycle :: "event \<Rightarrow> bool" where
  "is_lifecycle (Enter StartQuartoPreview) = True"
| "is_lifecycle (Leave StartQuartoPreview) = True"
| "is_lifecycle (Enter StopQuartoPreview) = True"
| "is_lifecycle (Leave StopQuartoPreview) = True"
| "is_lifecycle ev = False"

definition lifecycle :: "event list \<Rightarrow> event list" where
  "lifecycle tr = filter is_lifecycle tr"

definition one_cycle :: "event list" where
  "one_cycle = [Enter StartQuartoPreview, Leave StartQuartoPreview,
                Enter StopQuartoPreview, Leave StopQuartoPreview]"

text \<open>\<open>n\<close> lifecycles one after the other.\<close>

abbreviation cycles :: "nat \<Rightarrow> event list" where
  "cycles n \<equiv> concat (replicate n one_cycle)"

text \<open>
  The number of items of a run: the number of profiles or of commits that the sequence
  provider yields for the parsed command line (0 when the command line is rejected or
  the provider fails).
\<close>

definition run_length :: "'n platform \<Rightarrow> 'n world \<Rightarrow> nat" where
  "run_length pf w =
     (case parseArgs pf (args w) of
        Inl e \<Rightarrow> 0
      | Inr options \<Rightarrow>
          if opt_profileGroupIndex options \<noteq> None
          then (case profiles w of None \<Rightarrow> 0 | Some ps \<Rightarrow> length ps)
          else (case commits w of None \<Rightarrow> 0 | Some cs \<Rightarrow> length cs))"

text \<open>
  Worlds in which an item fails: the screen capture command reports failure; the
  preview stays silent, so that the wait for it times out.
\<close>

definition capture_failing_item :: item_world where
  "capture_failing_item =
     good_item\<lparr>capture_w := \<lparr>screencapture_result = Output False [], stat_result = None\<rparr>\<rparr>"

definition timeout_item :: item_world where
  "timeout_item = good_item\<lparr>spawned := Some \<lparr>pid = 4242, stderr = silent_stream\<rparr>\<rparr>"

definition sample_item_options :: "nat ProcessItemOptions" where
  "sample_item_options =
     \<lparr>itemId = str ''abc1234'', itemDescription = str ''commit abc1234'',
      item_outputDir = str ''/work/out'', item_inputDir = str ''/work'',
      item_file = None, item_profile = None, item_copyFile = None,
      screenRect = \<lparr>rect_x = 0, rect_y = 0, rect_width = 800, rect_height = 600\<rparr>\<rparr>"

section \<open>Basic facts about computations\<close>

lemmas io_defs = ret_def throw_def bind_def try_catch_def

lemma race_timer_settles: "race p (Rejects ms e) \<noteq> Never"
  by (cases p) (simp_all add: race_def)

section \<open>captureScreen\<close>

text \<open>
  C9: \<open>captureScreen\<close> always returns a boolean: it neither throws nor hangs, whatever
  the capture command and the file system do. The boolean is true exactly when the
  command reported success and the file at the output path exists afterwards with a
  size that is not zero; so it is false when the command fails or cannot be run, when
  the file is missing, and when the file is empty.
\<close>

theorem captureScreen_total:
  "snd (captureScreen pf w outputPath rect) =
     Returns ((\<exists>out. screencapture_result w = Output True out)
              \<and> (\<exists>n. stat_result w = Some n \<and> n \<noteq> 0))"
  by (cases "screencapture_result w"; cases "stat_result w")
     (auto simp: captureScreen_def command_output_def stat_def io_defs Let_def)

section \<open>stopQuartoPreview\<close>

lemma stop_step1_returns: "snd (stop_step1 w p) = Returns ()"
  using race_timer_settles[of "status w" 2000 ExitWaitTimeout]
  by (cases "race (status w) (Rejects 2000 ExitWaitTimeout)")
     (auto simp: stop_step1_def kill_def io_defs)

lemma stop_step2_returns: "snd (stop_step2 w) = Returns ()"
  by (cases "pkill_result w") (auto simp: stop_step2_def command_output_def sleep_def io_defs)

lemma stop_step3_returns: "snd (stop_step3 w) = Returns ()"
  by (cases "pgrep_result w"; cases "force_pkill_result w")
     (auto simp: stop_step3_def command_output_def io_defs Let_def)

lemma stopQuartoPreview_steps:
  "stopQuartoPreview w r =
     (fst (stop_step1 w (process_of r)) @ fst (stop_step2 w) @ fst (stop_step3 w), Returns ())"
  by (simp add: stopQuartoPreview_def io_defs stop_step1_returns stop_step2_returns
        stop_step3_returns Let_def)

lemma stop_step1_trace:
  "fst (stop_step1 w p) =
     Kill (pid p) SIGTERM #
       (if sigterm_ok w \<and> exited_in_time w then [] else [Kill (pid p) SIGKILL])"
  using race_timer_settles[of "status w" 2000 ExitWaitTimeout]
  by (cases "race (status w) (Rejects 2000 ExitWaitTimeout)")
     (auto simp: stop_step1_def kill_def io_defs exited_in_time_def)

lemma stop_step2_trace:
  "fst (stop_step2 w) =
     Spawn (str ''pkill'') [str ''-f'', preview_pattern] #
       (if pkill_result w = OutputThrows then [] else [Sleep 500])"
  by (cases "pkill_result w") (auto simp: stop_step2_def command_output_def sleep_def io_defs)

lemma stop_step3_trace:
  "fst (stop_step3 w) =
     Spawn (str ''pgrep'') [str ''-f'', preview_pattern] #
       (if (\<exists>out. pgrep_result w = Output True out \<and> trim out \<noteq> [])
        then [Spawn (str ''pkill'') [str ''-9'', str ''-f'', preview_pattern]] else [])"
  by (cases "pgrep_result w"; cases "force_pkill_result w")
     (auto simp: stop_step3_def command_output_def io_defs Let_def)

lemma exited_in_time_early:
  "status w = Resolves t () \<Longrightarrow> t < 2000 \<Longrightarrow> exited_in_time w"
  by (simp add: exited_in_time_def race_def)

lemma exited_in_time_late:
  "status w = Never \<or> (\<exists>t. settle_time (status w) = Some t \<and> 2000 < t)
     \<or> (\<exists>t e. status w = Rejects t e) \<Longrightarrow> \<not> exited_in_time w"
  by (cases "status w") (auto simp: exited_in_time_def race_def)


text \<open>
  C6: the trace of \<open>stopQuartoPreview\<close> is, in this order: SIGTERM to the known process
  id, then SIGKILL to the same process id unless the SIGTERM could be sent and the
  process exited within the bounded wait of 2000 ms; then the orphan sweep \<open>pkill -f\<close>
  (followed by a pause of 500 ms when the command could be run); then the verification
  search \<open>pgrep -f\<close>, followed by \<open>pkill -9 -f\<close> when it found processes. Steps 2 and 3
  are there whatever happened in step 1. A process whose status resolves in less than
  2000 ms has exited in time; one whose status never settles, settles later or rejects
  has not, and is sent SIGKILL.
\<close>

theorem stopQuartoPreview_order:
  "fst (stopQuartoPreview w r) =
     (Kill (pid (process_of r)) SIGTERM #
        (if sigterm_ok w \<and> exited_in_time w then [] else [Kill (pid (process_of r)) SIGKILL]))
     @ (Spawn (str ''pkill'') [str ''-f'', preview_pattern] #
        (if pkill_result w = OutputThrows then [] else [Sleep 500]))
     @ (Spawn (str ''pgrep'') [str ''-f'', preview_pattern] #
        (if (\<exists>out. pgrep_result w = Output True out \<and> trim out \<noteq> [])
         then [Spawn (str ''pkill'') [str ''-9'', str ''-f'', preview_pattern]] else []))
   \<and> ((\<exists>t. status w = Resolves t () \<and> t < 2000) \<longrightarrow> exited_in_time w)
   \<and> (status w = Never \<or> (\<exists>t. settle_time (status w) = Some t \<and> 2000 < t)
        \<or> (\<exists>t e. status w = Rejects t e) \<longrightarrow> \<not> exited_in_time w)"
  using exited_in_time_early[of w] exited_in_time_late[of w]
  by (simp add: stopQuartoPreview_steps stop_step1_trace stop_step2_trace stop_step3_trace)
     blast

theorem stopQuartoPreview_order_witness:
  "status stubborn_process = Never
   \<and> \<not> exited_in_time stubborn_process
   \<and> fst (stopQuartoPreview stubborn_process
            (Process \<lparr>pid = 4242, stderr = \<lparr>chunks = [], ending = StaysOpen\<rparr>\<rparr>)) =
       [Kill 4242 SIGTERM, Kill 4242 SIGKILL,
        Spawn (str ''pkill'') [str ''-f'', preview_pattern], Sleep 500,
        Spawn (str ''pgrep'') [str ''-f'', preview_pattern]]"
proof -
  have never: "status stubborn_process = Never"
    by (simp add: stubborn_process_def)
  have facts: "pkill_result stubborn_process \<noteq> OutputThrows"
    "\<not> (\<exists>out. pgrep_result stubborn_process = Output True out \<and> trim out \<noteq> [])"
    by (simp_all add: stubborn_process_def)
  from never
    stopQuartoPreview_order[of stubborn_process
      "Process \<lparr>pid = 4242, stderr = \<lparr>chunks = [], ending = StaysOpen\<rparr>\<rparr>"]
  show ?thesis by (simp add: facts)
qed

section \<open>parseArgs\<close>

lemma value_flag_cases:
  assumes "flag \<in> set value_flags"
  obtains "flag = str ''--input''" | "flag = str ''--file''"
        | "flag = str ''--start-commit''" | "flag = str ''--copy-file''"
  using assms by (auto simp: value_flags_def)

lemma parseNamed_last_flag:
  assumes "flag \<in> set value_flags"
  shows "parseNamed pf st [flag] = Inl (UnknownArgument flag)"
  using assms by (elim value_flag_cases) (simp_all add: str_def)

lemma value_flag_prefix: "flag \<in> set value_flags \<Longrightarrow> prefix (str ''--'') flag"
  by (elim value_flag_cases) (simp_all add: str_def)

lemma flag_literals_distinct:
  "distinct [str ''--input'', str ''--file'', str ''--start-commit'', str ''--copy-file'',
             str ''--profile-group'']"
  "distinct [str ''--profile-group'', str ''--copy-file'', str ''--start-commit'', str ''--file'',
             str ''--input'']"
  by (simp_all add: str_def)

lemmas flag_literals = flag_literals_distinct[simplified]

text \<open>
  When the arguments \<open>pre\<close> are accepted by the loop, the loop on \<open>pre\<close> followed by a
  value-taking flag reaches that flag at the last index and throws.
\<close>

lemma parseNamed_append_flag:
  assumes "flag \<in> set value_flags"
  shows "parseNamed pf st pre = Inr st'
         \<Longrightarrow> parseNamed pf st (pre @ [flag]) = Inl (UnknownArgument flag)"
proof (induction pf st pre rule: parseNamed.induct)
  case (1 pf st)
  show ?case by (simp add: parseNamed_last_flag[OF assms] del: parseNamed.simps)
next
  case (2 pf st arg rest)
  note last = parseNamed_last_flag[OF assms] and pre = value_flag_prefix[OF assms]
  show ?case
  proof (cases rest)
    case Nil
    with "2.prems" have arg: "arg = str ''--profile-group''"
      by (simp split: if_splits)
    have "parseNamed pf st [str ''--profile-group'', flag]
          = parseNamed pf (st\<lparr>ps_profileGroupIndex := Some (num_zero pf)\<rparr>) [flag]"
      using pre
      by (subst parseNamed.simps(2)) (simp add: flag_literals del: parseNamed.simps(2))
    then show ?thesis unfolding Nil arg
      by (simp add: last del: parseNamed.simps(2))
  next
    case (Cons v rest')
    note eq1 = parseNamed.simps(2)[of pf st arg "v # rest'"]
     and eq2 = parseNamed.simps(2)[of pf st arg "v # rest' @ [flag]"]
    from "2.prems" "2.IH" show ?thesis unfolding Cons
      by (auto simp add: eq1 eq2 flag_literals simp del: parseNamed.simps(2) split: if_splits)
  qed
qed

text \<open>
  C10, as stated, fails: in the command line \<open>out --file --input\<close> the flag
  \<open>--input\<close> is the last argument, and the command line is parsed without error: the
  loop takes \<open>--input\<close> as the value of \<open>--file\<close>.
\<close>

theorem parseArgs_trailing_flag_counterexample:
  "parseArgs sample_platform [str ''out'', str ''--file'', str ''--input'']
     = Inr \<lparr>opt_outputDir = str ''/work/out'', opt_inputDir = str ''/work'',
            opt_file = Some (str ''--input''), opt_startCommit = None, opt_copyFile = None,
            opt_profileGroupIndex = None\<rparr>"
  by (simp add: parseArgs_def sample_platform_def posix_resolve_def str_def)

text \<open>
  C10, amended: when the arguments between the output directory and the last argument
  are accepted by the parsing loop on their own, and the last argument is one of
  \<open>--input\<close>, \<open>--file\<close>, \<open>--start-commit\<close>, \<open>--copy-file\<close>, then \<open>parseArgs\<close> throws
  the unknown-argument error for that flag: it neither accepts the flag nor reads past
  the end of the list.
\<close>

theorem parseArgs_trailing_flag:
  assumes "flag \<in> set value_flags"
      and "parseNamed pf initial_parse_state pre = Inr st"
  shows "parseArgs pf (out # pre @ [flag]) = Inl (UnknownArgument flag)"
  using parseNamed_append_flag[OF assms] by (simp add: parseArgs_def)

theorem parseArgs_trailing_flag_witness:
  "str ''--input'' \<in> set value_flags
   \<and> parseNamed sample_platform initial_parse_state [str ''--file'', str ''a.qmd'']
       = Inr \<lparr>ps_inputDir = str ''.'', ps_file = Some (str ''a.qmd''), ps_startCommit = None,
              ps_copyFile = None, ps_profileGroupIndex = None\<rparr>
   \<and> parseArgs sample_platform [str ''out'', str ''--file'', str ''a.qmd'', str ''--input'']
       = Inl (UnknownArgument (str ''--input''))"
proof -
  have flag: "str ''--input'' \<in> set value_flags"
    by (simp add: value_flags_def)
  have pre: "parseNamed sample_platform initial_parse_state [str ''--file'', str ''a.qmd'']
       = Inr \<lparr>ps_inputDir = str ''.'', ps_file = Some (str ''a.qmd''), ps_startCommit = None,
              ps_copyFile = None, ps_profileGroupIndex = None\<rparr>"
    by (simp add: str_def)
  from flag pre parseArgs_trailing_flag[OF flag pre, of "str ''out''"]
  show ?thesis by simp
qed

lemma main_parse_failure:
  "parseArgs pf (args w) = Inl e \<Longrightarrow> main pf w = [QueryPermissions, Exit 1]"
  by (simp add: main_def main_body_def io_defs)

text \<open>
  The parsing loop and the options of the command line. One option is read in one or
  two steps of the loop.
\<close>

lemma tokens_flag: "tokens opt \<noteq> [] \<and> prefix (str ''--'') (hd (tokens opt))"
  by (cases opt rule: tokens.cases) (simp_all add: str_def)

lemma command_line_flag:
  "command_line opts \<noteq> [] \<Longrightarrow> prefix (str ''--'') (hd (command_line opts))"
  using tokens_flag by (cases opts) (auto simp: command_line_def)

lemma command_line_Cons: "command_line (opt # opts) = tokens opt @ command_line opts"
  by (simp add: command_line_def)


lemma pg_step:
  assumes "\<not> (cl \<noteq> [] \<and> Number pf (hd cl) \<noteq> None \<and> \<not> prefix (str ''--'') (hd cl))"
  shows "parseNamed pf st (str ''--profile-group'' # cl)
            = parseNamed pf (st\<lparr>ps_profileGroupIndex := Some (num_zero pf)\<rparr>) cl"
proof -
  have "parseNamed pf st (str ''--profile-group'' # cl) =
     (if cl \<noteq> [] \<and> Number pf (hd cl) \<noteq> None \<and> \<not> prefix (str ''--'') (hd cl) then
           parseNamed pf (st\<lparr>ps_profileGroupIndex := Number pf (hd cl)\<rparr>) (tl cl)
         else
           parseNamed pf (st\<lparr>ps_profileGroupIndex := Some (num_zero pf)\<rparr>) cl)"
    by (subst parseNamed.simps(2)) (simp only: flag_literals simp_thms if_False if_True)
  with assms show ?thesis by (simp only: if_False)
qed


lemma value_steps:
  "parseNamed pf st (str ''--input'' # v # cl) = parseNamed pf (st\<lparr>ps_inputDir := v\<rparr>) cl"
  "parseNamed pf st (str ''--file'' # v # cl) = parseNamed pf (st\<lparr>ps_file := Some v\<rparr>) cl"
  "parseNamed pf st (str ''--start-commit'' # v # cl)
     = parseNamed pf (st\<lparr>ps_startCommit := Some v\<rparr>) cl"
  "parseNamed pf st (str ''--copy-file'' # v # cl) = parseNamed pf (st\<lparr>ps_copyFile := Some v\<rparr>) cl"
  by (subst parseNamed.simps(2), simp add: flag_literals del: parseNamed.simps(2))+

lemma pg_index_step:
  assumes "Number pf i \<noteq> None" "\<not> prefix (str ''--'') i"
  shows "parseNamed pf st (str ''--profile-group'' # i # cl)
            = parseNamed pf (st\<lparr>ps_profileGroupIndex := Number pf i\<rparr>) cl"
  using assms by (subst parseNamed.simps(2)) (simp add: flag_literals del: parseNamed.simps(2))


lemma parseNamed_option:
  assumes "well_formed pf opt"
  shows "\<exists>st1. parseNamed pf st (tokens opt @ command_line opts)
                 = parseNamed pf st1 (command_line opts)
      \<and> (ps_profileGroupIndex st1 \<noteq> None
            \<longleftrightarrow> ps_profileGroupIndex st \<noteq> None \<or> (\<exists>i. opt = OptProfileGroup i))
      \<and> ps_startCommit st1 = (case opt of OptStartCommit v \<Rightarrow> Some v | _ \<Rightarrow> ps_startCommit st)"
proof (cases opt rule: tokens.cases)
  case (1 v)
  show ?thesis unfolding 1
    by (rule exI[of _ "st\<lparr>ps_inputDir := v\<rparr>"]) (simp add: value_steps del: parseNamed.simps)
next
  case (2 v)
  show ?thesis unfolding 2
    by (rule exI[of _ "st\<lparr>ps_file := Some v\<rparr>"]) (simp add: value_steps del: parseNamed.simps)
next
  case (3 v)
  show ?thesis unfolding 3
    by (rule exI[of _ "st\<lparr>ps_startCommit := Some v\<rparr>"])
       (simp add: value_steps del: parseNamed.simps)
next
  case (4 v)
  show ?thesis unfolding 4
    by (rule exI[of _ "st\<lparr>ps_copyFile := Some v\<rparr>"]) (simp add: value_steps del: parseNamed.simps)
next
  case 5
  have no_index: "\<not> (command_line opts \<noteq> [] \<and> Number pf (hd (command_line opts)) \<noteq> None
                      \<and> \<not> prefix (str ''--'') (hd (command_line opts)))"
    using command_line_flag[of opts] by blast
  show ?thesis unfolding 5
    by (rule exI[of _ "st\<lparr>ps_profileGroupIndex := Some (num_zero pf)\<rparr>"])
       (simp add: pg_step[OF no_index] del: parseNamed.simps)
next
  case (6 i)
  with assms have i: "Number pf i \<noteq> None" "\<not> prefix (str ''--'') i" by simp_all
  show ?thesis unfolding 6 using i(1)
    by (intro exI[of _ "st\<lparr>ps_profileGroupIndex := Number pf i\<rparr>"])
       (simp add: pg_index_step[OF i] del: parseNamed.simps)
qed

lemma parseNamed_command_line:
  "list_all (well_formed pf) opts \<Longrightarrow>
   \<exists>st'. parseNamed pf st (command_line opts) = Inr st'
     \<and> (ps_profileGroupIndex st' \<noteq> None
          \<longleftrightarrow> ps_profileGroupIndex st \<noteq> None \<or> selects_profile_group opts)
     \<and> ps_startCommit st'
         = (case start_commit_of opts of None \<Rightarrow> ps_startCommit st | Some v \<Rightarrow> Some v)"
proof (induction opts arbitrary: st)
  case Nil
  show ?case by (simp add: command_line_def)
next
  case (Cons opt opts)
  from Cons.prems have wf: "well_formed pf opt" and wfs: "list_all (well_formed pf) opts"
    by simp_all
  from parseNamed_option[OF wf, of st opts]
  obtain st1 where st1:
      "parseNamed pf st (tokens opt @ command_line opts) = parseNamed pf st1 (command_line opts)"
      "ps_profileGroupIndex st1 \<noteq> None
            \<longleftrightarrow> ps_profileGroupIndex st \<noteq> None \<or> (\<exists>i. opt = OptProfileGroup i)"
      "ps_startCommit st1 = (case opt of OptStartCommit v \<Rightarrow> Some v | _ \<Rightarrow> ps_startCommit st)"
    by (elim exE conjE) (rule that, assumption+)
  from Cons.IH[OF wfs, of st1] obtain st' where st':
     "parseNamed pf st1 (command_line opts) = Inr st'"
     "ps_profileGroupIndex st' \<noteq> None
          \<longleftrightarrow> ps_profileGroupIndex st1 \<noteq> None \<or> selects_profile_group opts"
     "ps_startCommit st'
        = (case start_commit_of opts of None \<Rightarrow> ps_startCommit st1 | Some v \<Rightarrow> Some v)"
    by (elim exE conjE) (rule that, assumption+)
  have pg: "selects_profile_group (opt # opts)
              \<longleftrightarrow> (\<exists>i. opt = OptProfileGroup i) \<or> selects_profile_group opts"
    by (cases opt) simp_all
  have sc: "(case start_commit_of (opt # opts) of None \<Rightarrow> ps_startCommit st | Some v \<Rightarrow> Some v)
       = (case start_commit_of opts of
            None \<Rightarrow> (case opt of OptStartCommit v \<Rightarrow> Some v | _ \<Rightarrow> ps_startCommit st)
          | Some v \<Rightarrow> Some v)"
    by (cases opt) (simp_all split: option.splits)
  have "parseNamed pf st (command_line (opt # opts)) = Inr st'"
    using st1(1) st'(1) by (simp only: command_line_Cons)
  moreover have "ps_profileGroupIndex st' \<noteq> None
          \<longleftrightarrow> ps_profileGroupIndex st \<noteq> None \<or> selects_profile_group (opt # opts)"
    using st'(2) st1(2) pg by blast
  moreover have "ps_startCommit st'
         = (case start_commit_of (opt # opts) of None \<Rightarrow> ps_startCommit st | Some v \<Rightarrow> Some v)"
    unfolding sc st'(3) st1(3) by (rule refl)
  ultimately show ?case by (intro exI[of _ st'] conjI)
qed


lemma parseNamed_accepts_option:
  assumes "parseNamed pf st (arg # rest) = Inr st'"
  shows "\<exists>opt rest' st1. well_formed pf opt \<and> arg # rest = tokens opt @ rest'
           \<and> parseNamed pf st1 rest' = Inr st'"
proof (cases rest)
  case Nil
  with assms have "arg = str ''--profile-group''"
    by (simp split: if_splits)
  moreover from assms Nil have "parseNamed pf st' [] = Inr st'"
    by simp
  ultimately show ?thesis unfolding Nil
    by (intro exI[of _ "OptProfileGroup None"] exI[of _ "[]"] exI[of _ st']) simp
next
  case (Cons v rest')
  let ?zero = "st\<lparr>ps_profileGroupIndex := Some (num_zero pf)\<rparr>"
  from assms[unfolded Cons parseNamed.simps(2)[of pf st arg "v # rest'"]]
  consider
      (opt_input) "arg = str ''--input''" "parseNamed pf (st\<lparr>ps_inputDir := v\<rparr>) rest' = Inr st'"
    | (opt_file) "arg = str ''--file''" "parseNamed pf (st\<lparr>ps_file := Some v\<rparr>) rest' = Inr st'"
    | (opt_start) "arg = str ''--start-commit''"
        "parseNamed pf (st\<lparr>ps_startCommit := Some v\<rparr>) rest' = Inr st'"
    | (opt_copy) "arg = str ''--copy-file''"
        "parseNamed pf (st\<lparr>ps_copyFile := Some v\<rparr>) rest' = Inr st'"
    | (opt_index) "arg = str ''--profile-group''" "Number pf v \<noteq> None" "\<not> prefix (str ''--'') v"
        "parseNamed pf (st\<lparr>ps_profileGroupIndex := Number pf v\<rparr>) rest' = Inr st'"
    | (opt_group) "arg = str ''--profile-group''" "parseNamed pf ?zero (v # rest') = Inr st'"
    by (simp del: parseNamed.simps(2) split: if_splits)
  then show ?thesis
  proof cases
    case opt_input
    then show ?thesis unfolding Cons
      by (intro exI[of _ "OptInput v"] exI[of _ rest'] exI[of _ "st\<lparr>ps_inputDir := v\<rparr>"]) simp
  next
    case opt_file
    then show ?thesis unfolding Cons
      by (intro exI[of _ "OptFile v"] exI[of _ rest'] exI[of _ "st\<lparr>ps_file := Some v\<rparr>"]) simp
  next
    case opt_start
    then show ?thesis unfolding Cons
      by (intro exI[of _ "OptStartCommit v"] exI[of _ rest']
            exI[of _ "st\<lparr>ps_startCommit := Some v\<rparr>"]) simp
  next
    case opt_copy
    then show ?thesis unfolding Cons
      by (intro exI[of _ "OptCopyFile v"] exI[of _ rest']
            exI[of _ "st\<lparr>ps_copyFile := Some v\<rparr>"]) simp
  next
    case opt_index
    then show ?thesis unfolding Cons
      by (intro exI[of _ "OptProfileGroup (Some v)"] exI[of _ rest']
            exI[of _ "st\<lparr>ps_profileGroupIndex := Number pf v\<rparr>"]) simp
  next
    case opt_group
    then show ?thesis unfolding Cons
      by (intro exI[of _ "OptProfileGroup None"] exI[of _ "v # rest'"] exI[of _ ?zero])
         (simp del: parseNamed.simps(2))
  qed
qed

lemma tokens_length: "0 < length (tokens opt)"
  by (cases opt rule: tokens.cases) simp_all

lemma parseNamed_accepts_command_line:
  "parseNamed pf st rest = Inr st'
   \<Longrightarrow> \<exists>opts. list_all (well_formed pf) opts \<and> rest = command_line opts"
proof (induction rest arbitrary: st rule: length_induct)
  case (1 rest)
  show ?case
  proof (cases rest)
    case Nil
    show ?thesis unfolding Nil
      by (intro exI[of _ "[]"]) (simp add: command_line_def)
  next
    case (Cons arg rest0)
    from parseNamed_accepts_option[OF "1.prems"[unfolded Cons]]
    obtain opt rest' st1 where step: "well_formed pf opt" "arg # rest0 = tokens opt @ rest'"
        "parseNamed pf st1 rest' = Inr st'"
      by (elim exE conjE) (rule that, assumption+)
    from step(2) tokens_length[of opt] have "length rest' < length rest"
      unfolding Cons by (metis length_append less_add_same_cancel2)
    with "1.IH" step(3) obtain opts where opts: "list_all (well_formed pf) opts"
        "rest' = command_line opts"
      by blast
    show ?thesis unfolding Cons step(2) opts(2)
      using step(1) opts(1)
      by (intro exI[of _ "opt # opts"]) (simp add: command_line_Cons)
  qed
qed

lemma parseNamed_error:
  "parseNamed pf st rest = Inl e \<Longrightarrow> \<exists>arg. e = UnknownArgument arg"
  by (induction pf st rest rule: parseNamed.induct) (auto split: if_splits)


text \<open>
  C8, as stated, fails: \<open>--start-commit\<close> with an empty value counts as absent in the
  check for mutually exclusive options, so the command line
  \<open>out --start-commit "" --profile-group\<close>, which supplies both options, is accepted.
\<close>

theorem parseArgs_exclusive_counterexample:
  "command_line [OptStartCommit [], OptProfileGroup None]
     = [str ''--start-commit'', [], str ''--profile-group'']
   \<and> parseArgs sample_platform [str ''out'', str ''--start-commit'', [], str ''--profile-group'']
     = Inr \<lparr>opt_outputDir = str ''/work/out'', opt_inputDir = str ''/work'', opt_file = None,
            opt_startCommit = Some [], opt_copyFile = None, opt_profileGroupIndex = Some 0\<rparr>"
  by (simp add: command_line_def parseArgs_def sample_platform_def posix_resolve_def str_def)

text \<open>
  C8, amended: let the arguments after the output directory be a sequence of well-formed
  options in which \<open>--profile-group\<close> occurs and whose last \<open>--start-commit\<close> has a
  value that is not empty. Then \<open>parseArgs\<close> throws: the error of mutually exclusive
  options, or the error of the path resolution, which comes just before that check; it
  is the error of mutually exclusive options whenever \<open>resolve\<close> does not throw.
  \<open>main\<close> then only has queried the permissions and exits with code 1: its trace has no
  event that starts a subprocess. When the arguments after the output directory are not
  a sequence of well-formed options, \<open>parseArgs\<close> throws an unknown-argument error, and
  the trace of \<open>main\<close> is the same.
\<close>

theorem parseArgs_exclusive:
  assumes "args w = out # rest"
  shows "(\<forall>opts h. list_all (well_formed pf) opts \<and> rest = command_line opts
            \<and> selects_profile_group opts \<and> start_commit_of opts = Some h \<and> h \<noteq> []
          \<longrightarrow> (parseArgs pf (args w) = Inl MutuallyExclusive
                \<or> parseArgs pf (args w) = Inl ResolveFailed)
              \<and> ((\<forall>p. resolve pf p \<noteq> None) \<longrightarrow> parseArgs pf (args w) = Inl MutuallyExclusive)
              \<and> main pf w = [QueryPermissions, Exit 1]
              \<and> \<not> list_ex spawns_subprocess (main pf w))
         \<and> ((\<nexists>opts. list_all (well_formed pf) opts \<and> rest = command_line opts)
          \<longrightarrow> (\<exists>arg. parseArgs pf (args w) = Inl (UnknownArgument arg))
              \<and> main pf w = [QueryPermissions, Exit 1]
              \<and> \<not> list_ex spawns_subprocess (main pf w))"
proof -
  have quiet: "main pf w = [QueryPermissions, Exit 1] \<and> \<not> list_ex spawns_subprocess (main pf w)"
    if "parseArgs pf (args w) = Inl e" for e
    using main_parse_failure[OF that] by simp
  have both: "(parseArgs pf (args w) = Inl MutuallyExclusive
                \<or> parseArgs pf (args w) = Inl ResolveFailed)
              \<and> ((\<forall>p. resolve pf p \<noteq> None) \<longrightarrow> parseArgs pf (args w) = Inl MutuallyExclusive)
              \<and> main pf w = [QueryPermissions, Exit 1]
              \<and> \<not> list_ex spawns_subprocess (main pf w)"
    if wf: "list_all (well_formed pf) opts" and rest: "rest = command_line opts"
      and pg: "selects_profile_group opts" and sc: "start_commit_of opts = Some h" "h \<noteq> []"
    for opts h
  proof -
    from parseNamed_command_line[OF wf, of initial_parse_state]
    obtain st where st: "parseNamed pf initial_parse_state (command_line opts) = Inr st"
        "ps_profileGroupIndex st \<noteq> None
          \<longleftrightarrow> ps_profileGroupIndex (initial_parse_state :: 'a parse_state) \<noteq> None
              \<or> selects_profile_group opts"
        "ps_startCommit st
          = (case start_commit_of opts of
               None \<Rightarrow> ps_startCommit (initial_parse_state :: 'a parse_state)
             | Some v \<Rightarrow> Some v)"
      by (elim exE conjE) (rule that, assumption+)
    from st(2) pg have g: "ps_profileGroupIndex st \<noteq> None" by simp
    from st(3) sc have c: "truthy (ps_startCommit st)" by simp
    have p: "parseArgs pf (args w) = Inl MutuallyExclusive
             \<or> parseArgs pf (args w) = Inl ResolveFailed"
      using assms rest st(1) g c by (auto simp: parseArgs_def split: option.splits)
    have q: "(\<forall>p. resolve pf p \<noteq> None) \<longrightarrow> parseArgs pf (args w) = Inl MutuallyExclusive"
      using assms rest st(1) g c by (auto simp: parseArgs_def split: option.splits)
    from p quiet have "main pf w = [QueryPermissions, Exit 1]
        \<and> \<not> list_ex spawns_subprocess (main pf w)"
      by blast
    with p q show ?thesis by blast
  qed
  have none: "(\<exists>arg. parseArgs pf (args w) = Inl (UnknownArgument arg))
              \<and> main pf w = [QueryPermissions, Exit 1]
              \<and> \<not> list_ex spawns_subprocess (main pf w)"
    if no: "\<nexists>opts. list_all (well_formed pf) opts \<and> rest = command_line opts"
  proof -
    obtain e where e: "parseNamed pf initial_parse_state rest = Inl e"
      using parseNamed_accepts_command_line[of pf initial_parse_state rest] no
      by (cases "parseNamed pf initial_parse_state rest") auto
    from parseNamed_error[OF e] obtain arg where "e = UnknownArgument arg" ..
    with e assms have "parseArgs pf (args w) = Inl (UnknownArgument arg)"
      by (simp add: parseArgs_def)
    with quiet show ?thesis by blast
  qed
  from both none show ?thesis by blast
qed


theorem parseArgs_exclusive_witness:
  "list_all (well_formed sample_platform) [OptStartCommit (str ''abc1234''), OptProfileGroup (Some (str ''1''))]
   \<and> command_line [OptStartCommit (str ''abc1234''), OptProfileGroup (Some (str ''1''))]
       = [str ''--start-commit'', str ''abc1234'', str ''--profile-group'', str ''1'']
   \<and> selects_profile_group [OptStartCommit (str ''abc1234''), OptProfileGroup (Some (str ''1''))]
   \<and> start_commit_of [OptStartCommit (str ''abc1234''), OptProfileGroup (Some (str ''1''))]
       = Some (str ''abc1234'')
   \<and> str ''abc1234'' \<noteq> []
   \<and> parseArgs sample_platform
       [str ''out'', str ''--start-commit'', str ''abc1234'', str ''--profile-group'', str ''1'']
     = Inl MutuallyExclusive
   \<and> main sample_platform
       (sample_world
          [str ''out'', str ''--start-commit'', str ''abc1234'', str ''--profile-group'', str ''1'']
          (\<lambda>i. good_item))
     = [QueryPermissions, Exit 1]
   \<and> (\<nexists>opts. list_all (well_formed sample_platform) opts \<and> [str ''bogus''] = command_line opts)
   \<and> parseArgs sample_platform [str ''out'', str ''bogus''] = Inl (UnknownArgument (str ''bogus''))
   \<and> main sample_platform (sample_world [str ''out'', str ''bogus''] (\<lambda>i. good_item))
     = [QueryPermissions, Exit 1]"
proof -
  let ?opts = "[OptStartCommit (str ''abc1234''), OptProfileGroup (Some (str ''1''))]"
  let ?rest = "[str ''--start-commit'', str ''abc1234'', str ''--profile-group'', str ''1'']"
  let ?w = "sample_world (str ''out'' # ?rest) (\<lambda>i. good_item)"
  let ?w' = "sample_world [str ''out'', str ''bogus''] (\<lambda>i. good_item)"
  have a: "args ?w = str ''out'' # ?rest" "args ?w' = str ''out'' # [str ''bogus'']"
    by (simp_all add: sample_world_def)
  have wf: "list_all (well_formed sample_platform) ?opts"
    by (simp add: sample_platform_def str_def)
  have cl: "?rest = command_line ?opts"
    by (simp add: command_line_def)
  have pg: "selects_profile_group ?opts" and sc: "start_commit_of ?opts = Some (str ''abc1234'')"
    and ne: "str ''abc1234'' \<noteq> []"
    by (simp_all add: str_def)
  have res: "resolve sample_platform p \<noteq> None" for p
    by (simp add: sample_platform_def)
  have bogus: "\<nexists>opts. list_all (well_formed sample_platform) opts
                 \<and> [str ''bogus''] = command_line opts"
  proof
    assume "\<exists>opts. list_all (well_formed sample_platform) opts
                 \<and> [str ''bogus''] = command_line opts"
    then obtain opts where "[str ''bogus''] = command_line opts" by blast
    with command_line_flag[of opts] have "prefix (str ''--'') (str ''bogus'')"
      by (metis list.distinct(1) list.sel(1))
    then show False by (simp add: str_def)
  qed
  have unknown: "parseArgs sample_platform [str ''out'', str ''bogus'']
                   = Inl (UnknownArgument (str ''bogus''))"
    by (simp add: parseArgs_def str_def)
  from parseArgs_exclusive[OF a(1), of sample_platform] wf cl pg sc ne res
  have first: "parseArgs sample_platform (str ''out'' # ?rest) = Inl MutuallyExclusive"
      "main sample_platform ?w = [QueryPermissions, Exit 1]"
    unfolding a(1) by blast+
  from parseArgs_exclusive[OF a(2), of sample_platform] bogus
  have second: "main sample_platform ?w' = [QueryPermissions, Exit 1]"
    by blast
  from wf cl pg sc ne first bogus unknown second show ?thesis
    by simp
qed

section \<open>Waiting for the preview server\<close>

lemma listeningMatch_nonempty: "listeningMatch c = Some u \<Longrightarrow> u \<noteq> []"
  by (induction c) (auto simp: Let_def str_def split: if_splits)

text \<open>While no URL is recorded, chunks without an announcement are passed over.\<close>

lemma processStderr_loop_skip:
  "processStderr_loop [] cs e = processStderr_loop [] (dropWhile no_listening cs) e"
  by (induction cs) (auto simp: no_listening_def)

text \<open>Once a URL is recorded it is kept, and the first marker ends the wait.\<close>

lemma processStderr_loop_recorded_marker:
  "url \<noteq> [] \<Longrightarrow> find has_marker cs = Some (tg, g)
   \<Longrightarrow> processStderr_loop url cs e = Resolves (tg + 500) url"
  by (induction cs) (auto simp: has_marker_def split: option.splits if_splits)

lemma processStderr_loop_recorded_no_marker:
  "url \<noteq> [] \<Longrightarrow> \<forall>c\<in>set cs. \<not> has_marker c
   \<Longrightarrow> processStderr_loop url cs e = processStderr_loop url [] e"
  by (induction cs) (auto simp: has_marker_def split: option.splits)

lemma processStderr_loop_first_listening:
  assumes "listeningMatch c0 = Some u"
  shows "processStderr_loop [] ((t0, c0) # rest) e =
           (if js_includes c0 (str ''GET:'') then Resolves (t0 + 500) u
            else processStderr_loop u rest e)"
  using assms listeningMatch_nonempty[OF assms] by simp

lemma sample_listening:
  "listeningMatch (str ''Listening on http://localhost:4321/'') = Some (str ''http://localhost:4321'')"
  "listeningMatch (str ''GET: /early'') = None"
  "listeningMatch (str ''Watching files for changes'') = None"
  "listeningMatch (str ''GET: /'') = None"
  by (simp_all add: str_def isWhiteSpace_def)

lemma sample_url_nonempty: "str ''http://localhost:4321'' \<noteq> []"
  by (simp add: str_def)

lemma sample_markers:
  "js_includes (str ''GET: /early'') (str ''GET:'')"
  "\<not> js_includes (str ''Listening on http://localhost:4321/'') (str ''GET:'')"
  "\<not> js_includes (str ''Watching files for changes'') (str ''GET:'')"
  "js_includes (str ''GET: /'') (str ''GET:'')"
  by (simp_all add: str_def)

text \<open>
  C2, as stated, fails: the wait is bounded by the timeout of 60000 ms. When the
  listening announcement arrives after 1000 ms and the first request marker after
  59800 ms, the scan would return the URL at 60300 ms, but the wait has already failed
  with the timeout error at 60000 ms.
\<close>

theorem readiness_returns_recorded_url_counterexample:
  "dropWhile no_listening (chunks late_marker_stream)
     = [(1000, str ''Listening on http://localhost:4321/''), (59800, str ''GET: /'')]
   \<and> listeningMatch (str ''Listening on http://localhost:4321/'')
       = Some (str ''http://localhost:4321'')
   \<and> find has_marker [(1000, str ''Listening on http://localhost:4321/''), (59800, str ''GET: /'')]
       = Some (59800, str ''GET: /'')
   \<and> processStderr late_marker_stream = Resolves 60300 (str ''http://localhost:4321'')
   \<and> waitForQuartoServer late_marker_stream = Rejects 60000 ReadinessTimeout"
  by (simp add: late_marker_stream_def no_listening_def has_marker_def sample_listening
        sample_markers sample_url_nonempty processStderr_def waitForQuartoServer_def race_def
        timeoutPromise_def)

text \<open>
  C2, amended: let the first chunk with a listening announcement arrive at \<open>t0\<close> and
  yield the URL \<open>u\<close>, and let the first chunk with the request marker among that chunk
  and the later ones arrive at \<open>tg\<close>; a marker in a chunk before \<open>t0\<close>, seen while no
  URL is recorded, does not count. Then the scan of the standard error stream resolves
  with exactly \<open>u\<close> at \<open>tg + 500\<close>, 500 ms after that marker. When \<open>tg + 500\<close> is
  before the timeout of 60000 ms, the wait returns exactly \<open>u\<close> at \<open>tg + 500\<close>; when it
  is after the timeout, the wait fails at 60000 ms with the timeout error.
\<close>

theorem readiness_returns_recorded_url:
  assumes "dropWhile no_listening (chunks s) = (t0, c0) # rest"
      and "listeningMatch c0 = Some u"
      and "find has_marker ((t0, c0) # rest) = Some (tg, g)"
  shows "processStderr s = Resolves (tg + 500) u
         \<and> (tg + 500 < 60000 \<longrightarrow> waitForQuartoServer s = Resolves (tg + 500) u)
         \<and> (60000 < tg + 500 \<longrightarrow> waitForQuartoServer s = Rejects 60000 ReadinessTimeout)"
proof -
  have u: "u \<noteq> []" using assms(2) by (rule listeningMatch_nonempty)
  have "processStderr s = processStderr_loop [] ((t0, c0) # rest) (ending s)"
    unfolding processStderr_def
    using processStderr_loop_skip[of "chunks s" "ending s"] assms(1) by simp
  also have "\<dots> = Resolves (tg + 500) u"
  proof (cases "js_includes c0 (str ''GET:'')")
    case True
    with assms(3) have "tg = t0" by (simp add: has_marker_def)
    with True show ?thesis
      by (simp add: processStderr_loop_first_listening[OF assms(2)]
            del: processStderr_loop.simps(4))
  next
    case False
    with assms(3) have "find has_marker rest = Some (tg, g)" by (simp add: has_marker_def)
    from processStderr_loop_recorded_marker[OF u this] False show ?thesis
      by (simp add: processStderr_loop_first_listening[OF assms(2)]
            del: processStderr_loop.simps(4))
  qed
  finally have scan: "processStderr s = Resolves (tg + 500) u" .
  then show ?thesis
    by (simp add: waitForQuartoServer_def race_def timeoutPromise_def)
qed

theorem readiness_returns_recorded_url_witness:
  "dropWhile no_listening (chunks early_marker_stream) =
     (1200, str ''Listening on http://localhost:4321/'')
       # [(1800, str ''Watching files for changes''), (2500, str ''GET: /'')]
   \<and> listeningMatch (str ''Listening on http://localhost:4321/'')
       = Some (str ''http://localhost:4321'')
   \<and> find has_marker ((1200, str ''Listening on http://localhost:4321/'')
         # [(1800, str ''Watching files for changes''), (2500, str ''GET: /'')])
       = Some (2500, str ''GET: /'')
   \<and> processStderr early_marker_stream = Resolves 3000 (str ''http://localhost:4321'')
   \<and> waitForQuartoServer early_marker_stream = Resolves 3000 (str ''http://localhost:4321'')
   \<and> dropWhile no_listening (chunks late_marker_stream)
       = (1000, str ''Listening on http://localhost:4321/'') # [(59800, str ''GET: /'')]
   \<and> find has_marker ((1000, str ''Listening on http://localhost:4321/'')
         # [(59800, str ''GET: /'')])
       = Some (59800, str ''GET: /'')
   \<and> waitForQuartoServer late_marker_stream = Rejects 60000 ReadinessTimeout"
proof -
  have a: "dropWhile no_listening (chunks early_marker_stream) =
     (1200, str ''Listening on http://localhost:4321/'')
       # [(1800, str ''Watching files for changes''), (2500, str ''GET: /'')]"
    by (simp add: early_marker_stream_def no_listening_def sample_listening)
  have b: "find has_marker ((1200, str ''Listening on http://localhost:4321/'')
         # [(1800, str ''Watching files for changes''), (2500, str ''GET: /'')])
       = Some (2500, str ''GET: /'')"
    by (simp add: has_marker_def sample_markers)
  have a': "dropWhile no_listening (chunks late_marker_stream)
       = (1000, str ''Listening on http://localhost:4321/'') # [(59800, str ''GET: /'')]"
    by (simp add: late_marker_stream_def no_listening_def sample_listening)
  have b': "find has_marker ((1000, str ''Listening on http://localhost:4321/'')
         # [(59800, str ''GET: /'')])
       = Some (59800, str ''GET: /'')"
    by (simp add: has_marker_def sample_markers)
  from readiness_returns_recorded_url[OF a sample_listening(1) b]
    readiness_returns_recorded_url[OF a' sample_listening(1) b']
    a b a' b' sample_listening(1)
  show ?thesis by simp
qed

text \<open>
  C3, as stated, fails: the wait is bounded by the timeout of 60000 ms. A stream that
  announces the URL and reports \<open>done\<close> after 61000 ms, without a request marker, makes
  the wait fail at 60000 ms with the timeout error, not with the error of the stream
  that ended.
\<close>

theorem readiness_stream_ended_counterexample:
  "ending late_closing_stream = Done 61000
   \<and> dropWhile no_listening (chunks late_closing_stream)
       = [(1200, str ''Listening on http://localhost:4321/'')]
   \<and> \<not> has_marker (1200, str ''Listening on http://localhost:4321/'')
   \<and> processStderr late_closing_stream = Rejects 61000 StreamEndedPrematurely
   \<and> waitForQuartoServer late_closing_stream = Rejects 60000 ReadinessTimeout"
  by (simp add: late_closing_stream_def no_listening_def has_marker_def sample_listening
        sample_markers sample_url_nonempty processStderr_def waitForQuartoServer_def race_def
        timeoutPromise_def)

text \<open>
  C3, amended: when the stream reports \<open>done\<close> at time \<open>t\<close> and no chunk from the first
  listening announcement on contains the request marker, the scan of the standard error
  stream rejects at \<open>t\<close> with the error of the stream that ended before the server was
  ready, and the wait rejects no later than the timeout of 60000 ms: it neither hangs
  nor returns a URL. Its error is that of the stream that ended when \<open>t\<close> is before the
  timeout, and the timeout error, at 60000 ms, when \<open>t\<close> is after it.
\<close>

theorem readiness_stream_ended:
  assumes "ending s = Done t"
      and "\<forall>c\<in>set (dropWhile no_listening (chunks s)). \<not> has_marker c"
  shows "processStderr s = Rejects t StreamEndedPrematurely
         \<and> (\<exists>t' e. waitForQuartoServer s = Rejects t' e \<and> t' \<le> 60000)
         \<and> (t < 60000 \<longrightarrow> waitForQuartoServer s = Rejects t StreamEndedPrematurely)
         \<and> (60000 < t \<longrightarrow> waitForQuartoServer s = Rejects 60000 ReadinessTimeout)"
proof -
  have skip: "processStderr s
                = processStderr_loop [] (dropWhile no_listening (chunks s)) (Done t)"
    unfolding processStderr_def
    using processStderr_loop_skip[of "chunks s" "ending s"] assms(1) by simp
  have scan: "processStderr s = Rejects t StreamEndedPrematurely"
  proof (cases "dropWhile no_listening (chunks s)")
    case Nil
    with skip show ?thesis by simp
  next
    case (Cons c rest)
    obtain t0 c0 where c: "c = (t0, c0)" by (cases c)
    from Cons have "\<not> no_listening c"
      by (metis hd_dropWhile list.distinct(1) list.sel(1))
    then obtain u where u: "listeningMatch c0 = Some u"
      by (auto simp: no_listening_def c)
    from assms(2) Cons c
    have nm: "\<not> js_includes c0 (str ''GET:'')" "\<forall>c\<in>set rest. \<not> has_marker c"
      by (auto simp: has_marker_def)
    from processStderr_loop_recorded_no_marker[OF listeningMatch_nonempty[OF u] nm(2)] nm(1)
    show ?thesis unfolding skip Cons c
      by (simp add: processStderr_loop_first_listening[OF u] del: processStderr_loop.simps(4))
  qed
  then show ?thesis
    by (auto simp: waitForQuartoServer_def race_def timeoutPromise_def)
qed

theorem readiness_stream_ended_witness:
  "ending closing_stream = Done 5000
   \<and> dropWhile no_listening (chunks closing_stream)
       = [(1200, str ''Listening on http://localhost:4321/'')]
   \<and> \<not> has_marker (1200, str ''Listening on http://localhost:4321/'')
   \<and> processStderr closing_stream = Rejects 5000 StreamEndedPrematurely
   \<and> waitForQuartoServer closing_stream = Rejects 5000 StreamEndedPrematurely
   \<and> ending late_closing_stream = Done 61000
   \<and> dropWhile no_listening (chunks late_closing_stream)
       = [(1200, str ''Listening on http://localhost:4321/'')]
   \<and> waitForQuartoServer late_closing_stream = Rejects 60000 ReadinessTimeout"
proof -
  have e: "ending closing_stream = Done 5000"
    by (simp add: closing_stream_def)
  have d: "dropWhile no_listening (chunks closing_stream)
             = [(1200, str ''Listening on http://localhost:4321/'')]"
    by (simp add: closing_stream_def no_listening_def sample_listening)
  have m: "\<not> has_marker (1200, str ''Listening on http://localhost:4321/'')"
    by (simp add: has_marker_def sample_markers)
  have h: "\<forall>c\<in>set (dropWhile no_listening (chunks closing_stream)). \<not> has_marker c"
    using m by (simp add: d)
  have e': "ending late_closing_stream = Done 61000"
    by (simp add: late_closing_stream_def)
  have d': "dropWhile no_listening (chunks late_closing_stream)
             = [(1200, str ''Listening on http://localhost:4321/'')]"
    by (simp add: late_closing_stream_def no_listening_def sample_listening)
  have h': "\<forall>c\<in>set (dropWhile no_listening (chunks late_closing_stream)). \<not> has_marker c"
    using m by (simp add: d')
  from readiness_stream_ended[OF e h] readiness_stream_ended[OF e' h'] e d m e' d'
  show ?thesis by simp
qed

text \<open>
  C4: the wait is the race of the scan against one timer of 60000 ms. It always settles,
  no later than 60000 ms. When the scan settles before the timer, its result is the
  result of the wait; when the scan never settles or settles after the timer, the wait
  rejects at 60000 ms with the timeout error. \<open>startQuartoPreview\<close> then throws that
  error after the one spawn of the preview: there is no second attempt.
\<close>

theorem readiness_timeout_race:
  "waitForQuartoServer s \<noteq> Never
   \<and> (\<exists>t. settle_time (waitForQuartoServer s) = Some t \<and> t \<le> 60000)
   \<and> (\<forall>t. settle_time (processStderr s) = Some t \<and> t < 60000
          \<longrightarrow> waitForQuartoServer s = processStderr s)
   \<and> (processStderr s = Never \<or> (\<exists>t. settle_time (processStderr s) = Some t \<and> 60000 < t)
        \<longrightarrow> waitForQuartoServer s = Rejects 60000 ReadinessTimeout)
   \<and> (waitForQuartoServer s = Rejects 60000 ReadinessTimeout
        \<longrightarrow> startQuartoPreview (Some \<lparr>pid = p, stderr = s\<rparr>) qmdFile profile
            = ([Spawn (str ''quarto'')
                  ([str ''preview''] @ (if truthy qmdFile then [the qmdFile] else [])
                   @ (if truthy profile then [str ''--profile'', the profile] else []))],
               Throws ReadinessTimeout))"
  by (cases "processStderr s")
     (auto simp: waitForQuartoServer_def race_def timeoutPromise_def startQuartoPreview_def
        io_defs Let_def)

theorem readiness_timeout_race_witness:
  "processStderr silent_stream = Never
   \<and> waitForQuartoServer silent_stream = Rejects 60000 ReadinessTimeout
   \<and> startQuartoPreview (Some \<lparr>pid = 4242, stderr = silent_stream\<rparr>) None None
       = ([Spawn (str ''quarto'') [str ''preview'']], Throws ReadinessTimeout)
   \<and> settle_time (processStderr early_marker_stream) = Some 3000
   \<and> waitForQuartoServer early_marker_stream = processStderr early_marker_stream"
proof -
  have never: "processStderr silent_stream = Never"
    by (simp add: processStderr_def silent_stream_def)
  have early: "settle_time (processStderr early_marker_stream) = Some 3000"
    by (simp add: processStderr_def early_marker_stream_def sample_listening sample_markers
          sample_url_nonempty)
  from never early readiness_timeout_race[of silent_stream 4242 None None]
    readiness_timeout_race[of early_marker_stream 4242 None None]
  show ?thesis by simp
qed

section \<open>The lifecycle of the preview in processItem\<close>

lemma lifecycle_simps [simp]:
  "lifecycle [] = []"
  "lifecycle (a @ b) = lifecycle a @ lifecycle b"
  "lifecycle (ev # tr) = (if is_lifecycle ev then ev # lifecycle tr else lifecycle tr)"
  by (simp_all add: lifecycle_def)

lemma fst_bind:
  "fst (bind m f) =
     fst m @ (case snd m of Returns v \<Rightarrow> fst (f v) | Throws e \<Rightarrow> [] | Hangs \<Rightarrow> [])"
  by (simp add: bind_def split: outcome.splits)

lemma snd_bind:
  "snd (bind m f) =
     (case snd m of Returns v \<Rightarrow> snd (f v) | Throws e \<Rightarrow> Throws e | Hangs \<Rightarrow> Hangs)"
  by (simp add: bind_def split: outcome.splits)

lemma fst_call: "fst (call f m) = Enter f # fst m @ (if snd m = Hangs then [] else [Leave f])"
  by (simp add: call_def)

lemma snd_call: "snd (call f m) = snd m"
  by (simp add: call_def)

lemma fst_await: "fst (await p) = []"
  by (cases p) simp_all

lemma waitForQuartoServer_settles: "waitForQuartoServer s \<noteq> Never"
  by (simp add: waitForQuartoServer_def timeoutPromise_def race_timer_settles)

lemma captureScreen_returns: "\<exists>b. snd (captureScreen pf w p r) = Returns b"
  by (cases "screencapture_result w"; cases "stat_result w")
     (auto simp: captureScreen_def command_output_def stat_def io_defs Let_def)

lemma ensureDir_quiet:
  "lifecycle (fst (ensureDir e d)) = []" "snd (ensureDir e d) \<noteq> Hangs"
  by (cases e; auto simp: ensureDir_def io_defs)+

lemma startQuartoPreview_quiet:
  "lifecycle (fst (startQuartoPreview sp f pr)) = []"
  "snd (startQuartoPreview sp f pr) \<noteq> Hangs"
proof -
  show "lifecycle (fst (startQuartoPreview sp f pr)) = []"
    by (cases sp)
       (auto simp: startQuartoPreview_def io_defs Let_def fst_await split: outcome.splits)
  show "snd (startQuartoPreview sp f pr) \<noteq> Hangs"
  proof (cases sp)
    case None
    then show ?thesis by (simp add: startQuartoPreview_def io_defs Let_def)
  next
    case (Some p)
    with waitForQuartoServer_settles[of "stderr p"] show ?thesis
      by (cases "waitForQuartoServer (stderr p)")
         (simp_all add: startQuartoPreview_def io_defs Let_def)
  qed
qed

lemma captureScreen_quiet: "lifecycle (fst (captureScreen pf w p r)) = []"
  by (cases "screencapture_result w"; cases "stat_result w")
     (auto simp: captureScreen_def command_output_def stat_def io_defs Let_def)

lemma stopQuartoPreview_quiet:
  "lifecycle (fst (stopQuartoPreview w r)) = []" "snd (stopQuartoPreview w r) = Returns ()"
  by (simp_all add: stopQuartoPreview_steps stop_step1_trace stop_step2_trace stop_step3_trace)

lemma copyFile_quiet:
  "lifecycle (fst (copyFile ok a b)) = []" "snd (copyFile ok a b) = Returns ok"
  by (auto simp: copyFile_def io_defs)

lemma checkoutCommit_quiet:
  "lifecycle (fst (checkoutCommit d h)) = []" "snd (checkoutCommit d h) \<noteq> Hangs"
  by (auto simp: checkoutCommit_def)

text \<open>
  One item: the lifecycle events of its trace are the beginning of one lifecycle, and
  all of it when the item is processed to its end.
\<close>

lemma processItem_cycle:
  "prefix (lifecycle (fst (processItem pf iw options))) one_cycle
   \<and> (snd (processItem pf iw options) = Returns ()
        \<longrightarrow> lifecycle (fst (processItem pf iw options)) = one_cycle)
   \<and> snd (processItem pf iw options) \<noteq> Hangs"
  using ensureDir_quiet(2)[of "mkdir_error iw"
          "item_outputDir options @ str ''/'' @ itemId options"]
        startQuartoPreview_quiet(2)[of "spawned iw" "item_file options" "item_profile options"]
        captureScreen_returns[of pf "capture_w iw"
          "item_outputDir options @ str ''/'' @ itemId options @ str ''/screenshot.png''"
          "screenRect options"]
  by (auto simp: processItem_def Let_def fst_bind snd_bind fst_call snd_call ensureDir_quiet(1)
       startQuartoPreview_quiet(1) captureScreen_quiet stopQuartoPreview_quiet copyFile_quiet
       one_cycle_def ret_def throw_def
       split: outcome.splits)

lemma sample_digits:
  "digits 0 = str ''0''" "digits 800 = str ''800''" "digits 600 = str ''600''"
  by (simp_all add: digits.simps[of 0] digits.simps[of 800] digits.simps[of 80] digits.simps[of 8]
        digits.simps[of 600] digits.simps[of 60] digits.simps[of 6] str_def)

lemma ready_wait:
  "waitForQuartoServer ready_stream = Resolves 3000 (str ''http://localhost:4321'')"
  by (simp add: waitForQuartoServer_def processStderr_def ready_stream_def race_def
        timeoutPromise_def sample_listening sample_markers sample_url_nonempty)

lemma silent_wait:
  "waitForQuartoServer silent_stream = Rejects 60000 ReadinessTimeout"
  by (simp add: waitForQuartoServer_def processStderr_def silent_stream_def race_def
        timeoutPromise_def)

lemma sample_parse_profile_group:
  "parseArgs sample_platform [str ''out'', str ''--profile-group'']
     = Inr \<lparr>opt_outputDir = str ''/work/out'', opt_inputDir = str ''/work'', opt_file = None,
            opt_startCommit = None, opt_copyFile = None, opt_profileGroupIndex = Some 0\<rparr>"
  by (simp add: parseArgs_def sample_platform_def posix_resolve_def str_def)

text \<open>
  Whenever \<open>processItem\<close> throws the capture error, \<open>stopQuartoPreview\<close> has not
  been called.
\<close>

lemma capture_failure_skips_stop:
  assumes "snd (processItem pf iw options) = Throws CaptureFailed"
  shows "Enter StopQuartoPreview \<notin> set (fst (processItem pf iw options))"
proof -
  have "Enter StopQuartoPreview \<notin> set (lifecycle (fst (processItem pf iw options)))"
    using assms
      captureScreen_returns[of pf "capture_w iw"
          "item_outputDir options @ str ''/'' @ itemId options @ str ''/screenshot.png''"
          "screenRect options"]
    by (auto simp: processItem_def Let_def fst_bind snd_bind fst_call snd_call ensureDir_quiet(1)
         startQuartoPreview_quiet(1) captureScreen_quiet stopQuartoPreview_quiet copyFile_quiet
         ret_def throw_def
         split: outcome.splits if_splits)
  then show ?thesis by (simp add: lifecycle_def)
qed

text \<open>
  C1: the code does not do what the claim says. In a world where the preview starts
  and becomes ready and the \<open>screencapture\<close> command reports failure, \<open>processItem\<close>
  throws the capture error right after \<open>captureScreen\<close> has returned false: the trace
  ends there, with no call of \<open>stopQuartoPreview\<close> and no signal sent to the preview
  process, which is left running.
\<close>

theorem processItem_capture_failure_leaks:
  "processItem sample_platform capture_failing_item sample_item_options =
     ([Mkdir (str ''/work/out/abc1234''),
       Enter StartQuartoPreview, Spawn (str ''quarto'') [str ''preview''], Leave StartQuartoPreview,
       Enter CaptureScreen,
       Spawn (str ''screencapture'')
         [str ''-x'', str ''-R'', str ''0,0,800,600'', str ''/work/out/abc1234/screenshot.png''],
       Leave CaptureScreen],
      Throws CaptureFailed)"
proof -
  have strs: "str ''/work/out'' @ str ''/'' @ str ''abc1234'' = str ''/work/out/abc1234''"
    "str ''/work/out/abc1234'' @ str ''/screenshot.png'' = str ''/work/out/abc1234/screenshot.png''"
    "str ''0'' @ str '','' @ str ''0'' @ str '','' @ str ''800'' @ str '','' @ str ''600'' = str ''0,0,800,600''"
    by (simp_all add: str_def)
  show ?thesis
    by (simp add: processItem_def sample_item_options_def capture_failing_item_def good_item_def
          ensureDir_def startQuartoPreview_def ready_wait captureScreen_def command_output_def
          call_def io_defs Let_def sample_platform_def sample_digits strs)
qed

section \<open>The loops of main\<close>

lemma processProfiles_cycles:
  "prefix (lifecycle (fst (processProfiles pf iw options rect i ps))) (cycles (length ps))
   \<and> (snd (processProfiles pf iw options rect i ps) = Returns ()
        \<longrightarrow> lifecycle (fst (processProfiles pf iw options rect i ps)) = cycles (length ps))
   \<and> snd (processProfiles pf iw options rect i ps) \<noteq> Hangs"
proof (induction ps arbitrary: i)
  case Nil
  show ?case by (simp add: ret_def)
next
  case (Cons p ps)
  let ?item = "processItem pf (iw i)
             \<lparr>itemId = p, itemDescription = str ''profile '' @ p,
              item_outputDir = opt_outputDir options, item_inputDir = opt_inputDir options,
              item_file = opt_file options, item_profile = Some p,
              item_copyFile = opt_copyFile options, screenRect = rect\<rparr>"
  note item = processItem_cycle[of pf "iw i" "\<lparr>itemId = p, itemDescription = str ''profile '' @ p,
              item_outputDir = opt_outputDir options, item_inputDir = opt_inputDir options,
              item_file = opt_file options, item_profile = Some p,
              item_copyFile = opt_copyFile options, screenRect = rect\<rparr>"]
  show ?case
  proof (cases "snd ?item")
    case (Returns u)
    with item Cons.IH[of "Suc i"] show ?thesis
      by (simp add: fst_bind snd_bind)
  next
    case (Throws e)
    with item show ?thesis
      by (simp add: fst_bind snd_bind prefix_prefix)
  next
    case Hangs
    with item show ?thesis by simp
  qed
qed

lemma processCommits_cycles:
  "prefix (lifecycle (fst (processCommits pf iw options rect i cs))) (cycles (length cs))
   \<and> (snd (processCommits pf iw options rect i cs) = Returns ()
        \<longrightarrow> lifecycle (fst (processCommits pf iw options rect i cs)) = cycles (length cs))
   \<and> snd (processCommits pf iw options rect i cs) \<noteq> Hangs"
proof (induction cs arbitrary: i)
  case Nil
  show ?case by (simp add: ret_def)
next
  case (Cons c cs)
  let ?opts = "\<lparr>itemId = hash c, itemDescription = str ''commit '' @ hash c,
                     item_outputDir = opt_outputDir options, item_inputDir = opt_inputDir options,
                     item_file = opt_file options, item_profile = None,
                     item_copyFile = opt_copyFile options, screenRect = rect\<rparr>"
  note item = processItem_cycle[of pf "iw i" ?opts]
  note co = checkoutCommit_quiet[of "opt_inputDir options" "hash c"]
  show ?case
  proof (cases "snd (checkoutCommit (opt_inputDir options) (hash c))")
    case (Returns u)
    note ret = this
    show ?thesis
    proof (cases "snd (processItem pf (iw i) ?opts)")
      case (Returns u')
      with ret co item Cons.IH[of "Suc i"] show ?thesis
        by (simp add: fst_bind snd_bind)
    next
      case (Throws e)
      with ret co item show ?thesis
        by (simp add: fst_bind snd_bind prefix_prefix)
    next
      case Hangs
      with item show ?thesis by simp
    qed
  next
    case (Throws e)
    with co show ?thesis by (simp add: fst_bind snd_bind)
  next
    case Hangs
    with co show ?thesis by simp
  qed
qed

lemma main_body_cycles:
  "prefix (lifecycle (fst (main_body pf w))) (cycles (run_length pf w))
   \<and> (snd (main_body pf w) = Returns ()
        \<longrightarrow> lifecycle (fst (main_body pf w)) = cycles (run_length pf w))
   \<and> snd (main_body pf w) \<noteq> Hangs"
proof (cases "parseArgs pf (args w)")
  case (Inl e)
  then show ?thesis by (simp add: main_body_def io_defs)
next
  case (Inr options)
  show ?thesis
  proof (cases "selectionRect w")
    case None
    with Inr show ?thesis
      by (simp add: main_body_def io_defs getLastSelectionRect_def)
  next
    case (Some rect)
    show ?thesis
    proof (cases "opt_profileGroupIndex options \<noteq> None")
      case True
      show ?thesis
      proof (cases "profiles w")
        case None
        with Inr Some True show ?thesis
          by (simp add: main_body_def io_defs getLastSelectionRect_def getProfilesFromGroup_def)
      next
        case (Some ps)
        with Inr \<open>selectionRect w = Some rect\<close> True
          processProfiles_cycles[of pf "item_w w" options rect 0 ps]
        show ?thesis
          by (auto simp add: main_body_def fst_bind snd_bind ret_def getLastSelectionRect_def
                getProfilesFromGroup_def run_length_def)
      qed
    next
      case False
      show ?thesis
      proof (cases "commits w")
        case None
        with Inr Some False show ?thesis
          by (simp add: main_body_def io_defs getLastSelectionRect_def getGitHistory_def)
      next
        case (Some cs)
        with Inr \<open>selectionRect w = Some rect\<close> False
          processCommits_cycles[of pf "item_w w" options rect 0 cs]
        show ?thesis
          by (auto simp add: main_body_def fst_bind snd_bind ret_def getLastSelectionRect_def
                getGitHistory_def run_length_def)
      qed
    qed
  qed
qed

lemma count_lifecycle:
  "is_lifecycle ev \<Longrightarrow> count_list (lifecycle tr) ev = count_list tr ev"
  by (induction tr) auto

lemma count_cycles:
  "count_list (cycles n) (Enter StartQuartoPreview) = n"
  "count_list (cycles n) (Enter StopQuartoPreview) = n"
  by (induction n) (simp_all add: one_cycle_def)

text \<open>
  C7, as stated, fails: a run over two profiles in which the preview of the first
  profile never becomes ready issues one start and no stop, and ends with exit code 1.
\<close>

theorem sequential_lifecycles_counterexample:
  "run_length sample_platform
     (sample_world [str ''out'', str ''--profile-group''] (\<lambda>i. timeout_item)) = 2
   \<and> main sample_platform (sample_world [str ''out'', str ''--profile-group''] (\<lambda>i. timeout_item))
       = [QueryPermissions, ReadSelectionRect, ReadProfiles (str ''/work''),
          Mkdir (str ''/work/out/light''),
          Enter StartQuartoPreview,
          Spawn (str ''quarto'') [str ''preview'', str ''--profile'', str ''light''],
          Leave StartQuartoPreview, Exit 1]
   \<and> count_list (main sample_platform
         (sample_world [str ''out'', str ''--profile-group''] (\<lambda>i. timeout_item)))
        (Enter StartQuartoPreview) = 1
   \<and> count_list (main sample_platform
         (sample_world [str ''out'', str ''--profile-group''] (\<lambda>i. timeout_item)))
        (Enter StopQuartoPreview) = 0"
proof -
  let ?w = "sample_world [str ''out'', str ''--profile-group''] (\<lambda>i. timeout_item)"
  have n: "run_length sample_platform ?w = 2"
    by (simp add: run_length_def sample_world_def sample_parse_profile_group)
  have strs: "str ''/work/out'' @ str ''/'' @ str ''light'' = str ''/work/out/light''"
    "str ''light'' \<noteq> []"
    by (simp_all add: str_def)
  have tr: "main sample_platform ?w
       = [QueryPermissions, ReadSelectionRect, ReadProfiles (str ''/work''),
          Mkdir (str ''/work/out/light''),
          Enter StartQuartoPreview,
          Spawn (str ''quarto'') [str ''preview'', str ''--profile'', str ''light''],
          Leave StartQuartoPreview, Exit 1]"
    by (simp add: main_def main_body_def sample_world_def sample_parse_profile_group
          getLastSelectionRect_def getProfilesFromGroup_def processItem_def timeout_item_def
          good_item_def ensureDir_def startQuartoPreview_def silent_wait call_def io_defs Let_def
          strs)
  show ?thesis unfolding tr using n by simp
qed


text \<open>
  C7, amended: in every run, the calls of \<open>startQuartoPreview\<close> and \<open>stopQuartoPreview\<close>
  and their returns follow each other as the beginning of \<open>N\<close> lifecycles carried
  through one after the other, \<open>N\<close> being the number of items: a start is called only
  when the stop of the item before has returned, and no two starts are unsettled at the
  same time. In every run that ends with exit code 0 the lifecycles are exactly \<open>N\<close>:
  there are \<open>N\<close> starts and \<open>N\<close> stops.
\<close>

theorem sequential_lifecycles:
  "prefix (lifecycle (main pf w)) (cycles (run_length pf w))
   \<and> (last (main pf w) = Exit 0 \<longrightarrow>
        lifecycle (main pf w) = cycles (run_length pf w)
        \<and> count_list (main pf w) (Enter StartQuartoPreview) = run_length pf w
        \<and> count_list (main pf w) (Enter StopQuartoPreview) = run_length pf w)"
proof -
  note body = main_body_cycles[of pf w]
  have pre: "prefix (lifecycle (main pf w)) (cycles (run_length pf w))"
    using body by (cases "snd (main_body pf w)") (simp_all add: main_def)
  have eq: "lifecycle (main pf w) = cycles (run_length pf w)" if "last (main pf w) = Exit 0"
    using body that by (cases "snd (main_body pf w)") (simp_all add: main_def split: if_splits)
  have cnt: "count_list (main pf w) ev = count_list (cycles (run_length pf w)) ev"
    if "last (main pf w) = Exit 0" "is_lifecycle ev" for ev
    using count_lifecycle[OF that(2), of "main pf w"] eq[OF that(1)] by simp
  from pre eq cnt show ?thesis by (simp add: count_cycles)
qed

lemma good_item_returns:
  "item_copyFile options = None \<Longrightarrow> snd (processItem pf good_item options) = Returns ()"
  by (simp add: processItem_def good_item_def snd_bind snd_call ensureDir_def
        startQuartoPreview_def ready_wait captureScreen_def command_output_def stat_def
        stopQuartoPreview_quiet io_defs Let_def)

lemma good_profiles_return:
  "opt_copyFile options = None
   \<Longrightarrow> snd (processProfiles pf (\<lambda>i. good_item) options rect i ps) = Returns ()"
  by (induction ps arbitrary: i) (simp_all add: ret_def snd_bind good_item_returns)

theorem sequential_lifecycles_witness:
  "last (main sample_platform (sample_world [str ''out'', str ''--profile-group''] (\<lambda>i. good_item)))
     = Exit 0
   \<and> run_length sample_platform
       (sample_world [str ''out'', str ''--profile-group''] (\<lambda>i. good_item)) = 2
   \<and> lifecycle (main sample_platform
         (sample_world [str ''out'', str ''--profile-group''] (\<lambda>i. good_item)))
       = one_cycle @ one_cycle
   \<and> count_list (main sample_platform
         (sample_world [str ''out'', str ''--profile-group''] (\<lambda>i. good_item)))
        (Enter StartQuartoPreview) = 2
   \<and> count_list (main sample_platform
         (sample_world [str ''out'', str ''--profile-group''] (\<lambda>i. good_item)))
        (Enter StopQuartoPreview) = 2"
proof -
  let ?w = "sample_world [str ''out'', str ''--profile-group''] (\<lambda>i. good_item)"
  have n: "run_length sample_platform ?w = 2"
    by (simp add: run_length_def sample_world_def sample_parse_profile_group)
  have body: "snd (main_body sample_platform ?w) = Returns ()"
    by (simp add: main_body_def sample_world_def sample_parse_profile_group snd_bind ret_def
          getLastSelectionRect_def getProfilesFromGroup_def good_profiles_return
          good_item_returns)
  have ok: "last (main sample_platform ?w) = Exit 0"
    using body by (simp add: main_def sample_world_def)
  from sequential_lifecycles[of sample_platform ?w] ok n show ?thesis
    by (simp add: numeral_2_eq_2)
qed

end
